theory Spec2Isabelle
  imports Main "HOL-Library.Word" "HOL-Library.Char_ord" "HOL-Library.List_Lexorder"
    "HOL-Library.AList"
begin

unbundle bit_operations_syntax

section \<open>Strings and dictionaries\<close>

text \<open>
  A Python \<open>str\<close> is modelled by the bytes of its UTF-8 encoding, one \<open>char\<close> per
  byte, so \<open>s.encode("utf-8")\<close> reads the characters off as bytes and the order on
  strings (lexicographic, by character code) is the order \<open>sorted\<close> uses on keys.
  A \<open>dict\<close> is an association list in insertion order; assigning to a key replaces
  the value in place or appends a new entry, which is what \<open>AList.update\<close> does.
\<close>

type_synonym byte = "8 word"
type_synonym u32 = "32 word"
type_synonym 'v pydict = "(string \<times> 'v) list"

definition dict_set :: "'v pydict \<Rightarrow> string \<Rightarrow> 'v \<Rightarrow> 'v pydict" where
  "dict_set d k v = AList.update k v d"

definition dict_update :: "'v pydict \<Rightarrow> 'v pydict \<Rightarrow> 'v pydict" where
  "dict_update d e = foldl (\<lambda>acc (k, v). dict_set acc k v) d e"

definition startswith :: "string \<Rightarrow> string \<Rightarrow> bool" where
  "startswith s p = (take (length p) s = p)"

fun join :: "string \<Rightarrow> string list \<Rightarrow> string" where
  "join sep [] = []"
| "join sep [x] = x"
| "join sep (x # y # ys) = x @ sep @ join sep (y # ys)"

section \<open>Unicode text\<close>

text \<open>
  A string holds the bytes of its UTF-8 encoding. The methods of \<open>str\<close> that look at
  characters work on code points: \<open>codepoints\<close> reads the code points off the bytes and
  \<open>str_of\<close> writes them back. The three tables are those of the Unicode character
  database of the Python runtime (Unicode 14.0.0): the white-space characters that
  \<open>str.strip\<close> and \<open>Decimal\<close> drop, the zero digit of every decimal-digit block, and the
  upper-casing of every code point above ASCII that \<open>str.upper\<close> changes, in pages of
  256 code points.
\<close>

definition utf8_tail :: "nat \<Rightarrow> nat" where
  "utf8_tail b = (if b < 0xC0 then 0 else if b < 0xE0 then 1 else if b < 0xF0 then 2 else 3)"

definition utf8_cp :: "nat \<Rightarrow> nat list \<Rightarrow> nat" where
  "utf8_cp b ts =
     (case ts of
        [] \<Rightarrow> b
      | [t1] \<Rightarrow> (b - 0xC0) * 64 + (t1 - 0x80)
      | [t1, t2] \<Rightarrow> (b - 0xE0) * 4096 + (t1 - 0x80) * 64 + (t2 - 0x80)
      | t1 # t2 # t3 # _ \<Rightarrow>
          (b - 0xF0) * 262144 + (t1 - 0x80) * 4096 + (t2 - 0x80) * 64 + (t3 - 0x80))"

function decode_utf8 :: "nat list \<Rightarrow> nat list" where
  "decode_utf8 [] = []"
| "decode_utf8 (b # bs) =
     utf8_cp b (take (utf8_tail b) bs) # decode_utf8 (drop (utf8_tail b) bs)"
  by pat_completeness auto
termination
  by (relation "measure length") auto

definition utf8_bytes :: "nat \<Rightarrow> nat list" where
  "utf8_bytes c =
     (if c < 0x80 then [c]
      else if c < 0x800 then [0xC0 + c div 64, 0x80 + c mod 64]
      else if c < 0x10000 then [0xE0 + c div 4096, 0x80 + c div 64 mod 64, 0x80 + c mod 64]
      else [0xF0 + c div 262144, 0x80 + c div 4096 mod 64, 0x80 + c div 64 mod 64,
            0x80 + c mod 64])"

definition codepoints :: "string \<Rightarrow> nat list" where
  "codepoints s = decode_utf8 (map of_char s)"

definition str_of :: "nat list \<Rightarrow> string" where
  "str_of cs = map char_of (concat (map utf8_bytes cs))"

definition unicode_whitespace :: "nat list" where
  "unicode_whitespace = [
    0x9, 0xA, 0xB, 0xC, 0xD, 0x1C, 0x1D, 0x1E, 0x1F, 0x20, 0x85, 0xA0, 0x1680, 0x2000, 0x2001,
    0x2002, 0x2003, 0x2004, 0x2005, 0x2006, 0x2007, 0x2008, 0x2009, 0x200A, 0x2028, 0x2029,
    0x202F, 0x205F, 0x3000]"

definition unicode_digit_zeros :: "nat list" where
  "unicode_digit_zeros = [
    0x30, 0x660, 0x6F0, 0x7C0, 0x966, 0x9E6, 0xA66, 0xAE6, 0xB66, 0xBE6, 0xC66, 0xCE6, 0xD66,
    0xDE6, 0xE50, 0xED0, 0xF20, 0x1040, 0x1090, 0x17E0, 0x1810, 0x1946, 0x19D0, 0x1A80, 0x1A90,
    0x1B50, 0x1BB0, 0x1C40, 0x1C50, 0xA620, 0xA8D0, 0xA900, 0xA9D0, 0xA9F0, 0xAA50, 0xABF0,
    0xFF10, 0x104A0, 0x10D30, 0x11066, 0x110F0, 0x11136, 0x111D0, 0x112F0, 0x11450, 0x114D0,
    0x11650, 0x116C0, 0x11730, 0x118E0, 0x11950, 0x11C50, 0x11D50, 0x11DA0, 0x16A60, 0x16AC0,
    0x16B50, 0x1D7CE, 0x1D7D8, 0x1D7E2, 0x1D7EC, 0x1D7F6, 0x1E140, 0x1E2F0, 0x1E950, 0x1FBF0]"

definition unicode_upper_p0 :: "(nat \<times> nat list) list" where
  "unicode_upper_p0 = [
    (181, [924]), (223, [83, 83]), (224, [192]), (225, [193]), (226, [194]), (227, [195]),
    (228, [196]), (229, [197]), (230, [198]), (231, [199]), (232, [200]), (233, [201]),
    (234, [202]), (235, [203]), (236, [204]), (237, [205]), (238, [206]), (239, [207]),
    (240, [208]), (241, [209]), (242, [210]), (243, [211]), (244, [212]), (245, [213]),
    (246, [214]), (248, [216]), (249, [217]), (250, [218]), (251, [219]), (252, [220]),
    (253, [221]), (254, [222]), (255, [376])]"

definition unicode_upper_p1 :: "(nat \<times> nat list) list" where
  "unicode_upper_p1 = [
    (257, [256]), (259, [258]), (261, [260]), (263, [262]), (265, [264]), (267, [266]),
    (269, [268]), (271, [270]), (273, [272]), (275, [274]), (277, [276]), (279, [278]),
    (281, [280]), (283, [282]), (285, [284]), (287, [286]), (289, [288]), (291, [290]),
    (293, [292]), (295, [294]), (297, [296]), (299, [298]), (301, [300]), (303, [302]),
    (305, [73]), (307, [306]), (309, [308]), (311, [310]), (314, [313]), (316, [315]),
    (318, [317]), (320, [319]), (322, [321]), (324, [323]), (326, [325]), (328, [327]),
    (329, [700, 78]), (331, [330]), (333, [332]), (335, [334]), (337, [336]), (339, [338]),
    (341, [340]), (343, [342]), (345, [344]), (347, [346]), (349, [348]), (351, [350]),
    (353, [352]), (355, [354]), (357, [356]), (359, [358]), (361, [360]), (363, [362]),
    (365, [364]), (367, [366]), (369, [368]), (371, [370]), (373, [372]), (375, [374]),
    (378, [377]), (380, [379]), (382, [381]), (383, [83]), (384, [579]), (387, [386]),
    (389, [388]), (392, [391]), (396, [395]), (402, [401]), (405, [502]), (409, [408]),
    (410, [573]), (414, [544]), (417, [416]), (419, [418]), (421, [420]), (424, [423]),
    (429, [428]), (432, [431]), (436, [435]), (438, [437]), (441, [440]), (445, [444]),
    (447, [503]), (453, [452]), (454, [452]), (456, [455]), (457, [455]), (459, [458]),
    (460, [458]), (462, [461]), (464, [463]), (466, [465]), (468, [467]), (470, [469]),
    (472, [471]), (474, [473]), (476, [475]), (477, [398]), (479, [478]), (481, [480]),
    (483, [482]), (485, [484]), (487, [486]), (489, [488]), (491, [490]), (493, [492]),
    (495, [494]), (496, [74, 780]), (498, [497]), (499, [497]), (501, [500]), (505, [504]),
    (507, [506]), (509, [508]), (511, [510])]"

definition unicode_upper_p2 :: "(nat \<times> nat list) list" where
  "unicode_upper_p2 = [
    (513, [512]), (515, [514]), (517, [516]), (519, [518]), (521, [520]), (523, [522]),
    (525, [524]), (527, [526]), (529, [528]), (531, [530]), (533, [532]), (535, [534]),
    (537, [536]), (539, [538]), (541, [540]), (543, [542]), (547, [546]), (549, [548]),
    (551, [550]), (553, [552]), (555, [554]), (557, [556]), (559, [558]), (561, [560]),
    (563, [562]), (572, [571]), (575, [11390]), (576, [11391]), (578, [577]), (583, [582]),
    (585, [584]), (587, [586]), (589, [588]), (591, [590]), (592, [11375]), (593, [11373]),
    (594, [11376]), (595, [385]), (596, [390]), (598, [393]), (599, [394]), (601, [399]),
    (603, [400]), (604, [42923]), (608, [403]), (609, [42924]), (611, [404]), (613, [42893]),
    (614, [42922]), (616, [407]), (617, [406]), (618, [42926]), (619, [11362]), (620, [42925]),
    (623, [412]), (625, [11374]), (626, [413]), (629, [415]), (637, [11364]), (640, [422]),
    (642, [42949]), (643, [425]), (647, [42929]), (648, [430]), (649, [580]), (650, [433]),
    (651, [434]), (652, [581]), (658, [439]), (669, [42930]), (670, [42928])]"

definition unicode_upper_p3 :: "(nat \<times> nat list) list" where
  "unicode_upper_p3 = [
    (837, [921]), (881, [880]), (883, [882]), (887, [886]), (891, [1021]), (892, [1022]),
    (893, [1023]), (912, [921, 776, 769]), (940, [902]), (941, [904]), (942, [905]),
    (943, [906]), (944, [933, 776, 769]), (945, [913]), (946, [914]), (947, [915]),
    (948, [916]), (949, [917]), (950, [918]), (951, [919]), (952, [920]), (953, [921]),
    (954, [922]), (955, [923]), (956, [924]), (957, [925]), (958, [926]), (959, [927]),
    (960, [928]), (961, [929]), (962, [931]), (963, [931]), (964, [932]), (965, [933]),
    (966, [934]), (967, [935]), (968, [936]), (969, [937]), (970, [938]), (971, [939]),
    (972, [908]), (973, [910]), (974, [911]), (976, [914]), (977, [920]), (981, [934]),
    (982, [928]), (983, [975]), (985, [984]), (987, [986]), (989, [988]), (991, [990]),
    (993, [992]), (995, [994]), (997, [996]), (999, [998]), (1001, [1000]), (1003, [1002]),
    (1005, [1004]), (1007, [1006]), (1008, [922]), (1009, [929]), (1010, [1017]),
    (1011, [895]), (1013, [917]), (1016, [1015]), (1019, [1018])]"

definition unicode_upper_p4 :: "(nat \<times> nat list) list" where
  "unicode_upper_p4 = [
    (1072, [1040]), (1073, [1041]), (1074, [1042]), (1075, [1043]), (1076, [1044]),
    (1077, [1045]), (1078, [1046]), (1079, [1047]), (1080, [1048]), (1081, [1049]),
    (1082, [1050]), (1083, [1051]), (1084, [1052]), (1085, [1053]), (1086, [1054]),
    (1087, [1055]), (1088, [1056]), (1089, [1057]), (1090, [1058]), (1091, [1059]),
    (1092, [1060]), (1093, [1061]), (1094, [1062]), (1095, [1063]), (1096, [1064]),
    (1097, [1065]), (1098, [1066]), (1099, [1067]), (1100, [1068]), (1101, [1069]),
    (1102, [1070]), (1103, [1071]), (1104, [1024]), (1105, [1025]), (1106, [1026]),
    (1107, [1027]), (1108, [1028]), (1109, [1029]), (1110, [1030]), (1111, [1031]),
    (1112, [1032]), (1113, [1033]), (1114, [1034]), (1115, [1035]), (1116, [1036]),
    (1117, [1037]), (1118, [1038]), (1119, [1039]), (1121, [1120]), (1123, [1122]),
    (1125, [1124]), (1127, [1126]), (1129, [1128]), (1131, [1130]), (1133, [1132]),
    (1135, [1134]), (1137, [1136]), (1139, [1138]), (1141, [1140]), (1143, [1142]),
    (1145, [1144]), (1147, [1146]), (1149, [1148]), (1151, [1150]), (1153, [1152]),
    (1163, [1162]), (1165, [1164]), (1167, [1166]), (1169, [1168]), (1171, [1170]),
    (1173, [1172]), (1175, [1174]), (1177, [1176]), (1179, [1178]), (1181, [1180]),
    (1183, [1182]), (1185, [1184]), (1187, [1186]), (1189, [1188]), (1191, [1190]),
    (1193, [1192]), (1195, [1194]), (1197, [1196]), (1199, [1198]), (1201, [1200]),
    (1203, [1202]), (1205, [1204]), (1207, [1206]), (1209, [1208]), (1211, [1210]),
    (1213, [1212]), (1215, [1214]), (1218, [1217]), (1220, [1219]), (1222, [1221]),
    (1224, [1223]), (1226, [1225]), (1228, [1227]), (1230, [1229]), (1231, [1216]),
    (1233, [1232]), (1235, [1234]), (1237, [1236]), (1239, [1238]), (1241, [1240]),
    (1243, [1242]), (1245, [1244]), (1247, [1246]), (1249, [1248]), (1251, [1250]),
    (1253, [1252]), (1255, [1254]), (1257, [1256]), (1259, [1258]), (1261, [1260]),
    (1263, [1262]), (1265, [1264]), (1267, [1266]), (1269, [1268]), (1271, [1270]),
    (1273, [1272]), (1275, [1274]), (1277, [1276]), (1279, [1278])]"

definition unicode_upper_p5 :: "(nat \<times> nat list) list" where
  "unicode_upper_p5 = [
    (1281, [1280]), (1283, [1282]), (1285, [1284]), (1287, [1286]), (1289, [1288]),
    (1291, [1290]), (1293, [1292]), (1295, [1294]), (1297, [1296]), (1299, [1298]),
    (1301, [1300]), (1303, [1302]), (1305, [1304]), (1307, [1306]), (1309, [1308]),
    (1311, [1310]), (1313, [1312]), (1315, [1314]), (1317, [1316]), (1319, [1318]),
    (1321, [1320]), (1323, [1322]), (1325, [1324]), (1327, [1326]), (1377, [1329]),
    (1378, [1330]), (1379, [1331]), (1380, [1332]), (1381, [1333]), (1382, [1334]),
    (1383, [1335]), (1384, [1336]), (1385, [1337]), (1386, [1338]), (1387, [1339]),
    (1388, [1340]), (1389, [1341]), (1390, [1342]), (1391, [1343]), (1392, [1344]),
    (1393, [1345]), (1394, [1346]), (1395, [1347]), (1396, [1348]), (1397, [1349]),
    (1398, [1350]), (1399, [1351]), (1400, [1352]), (1401, [1353]), (1402, [1354]),
    (1403, [1355]), (1404, [1356]), (1405, [1357]), (1406, [1358]), (1407, [1359]),
    (1408, [1360]), (1409, [1361]), (1410, [1362]), (1411, [1363]), (1412, [1364]),
    (1413, [1365]), (1414, [1366]), (1415, [1333, 1362])]"

definition unicode_upper_p16 :: "(nat \<times> nat list) list" where
  "unicode_upper_p16 = [
    (4304, [7312]), (4305, [7313]), (4306, [7314]), (4307, [7315]), (4308, [7316]),
    (4309, [7317]), (4310, [7318]), (4311, [7319]), (4312, [7320]), (4313, [7321]),
    (4314, [7322]), (4315, [7323]), (4316, [7324]), (4317, [7325]), (4318, [7326]),
    (4319, [7327]), (4320, [7328]), (4321, [7329]), (4322, [7330]), (4323, [7331]),
    (4324, [7332]), (4325, [7333]), (4326, [7334]), (4327, [7335]), (4328, [7336]),
    (4329, [7337]), (4330, [7338]), (4331, [7339]), (4332, [7340]), (4333, [7341]),
    (4334, [7342]), (4335, [7343]), (4336, [7344]), (4337, [7345]), (4338, [7346]),
    (4339, [7347]), (4340, [7348]), (4341, [7349]), (4342, [7350]), (4343, [7351]),
    (4344, [7352]), (4345, [7353]), (4346, [7354]), (4349, [7357]), (4350, [7358]),
    (4351, [7359])]"

definition unicode_upper_p19 :: "(nat \<times> nat list) list" where
  "unicode_upper_p19 = [
    (5112, [5104]), (5113, [5105]), (5114, [5106]), (5115, [5107]), (5116, [5108]),
    (5117, [5109])]"

definition unicode_upper_p28 :: "(nat \<times> nat list) list" where
  "unicode_upper_p28 = [
    (7296, [1042]), (7297, [1044]), (7298, [1054]), (7299, [1057]), (7300, [1058]),
    (7301, [1058]), (7302, [1066]), (7303, [1122]), (7304, [42570])]"

definition unicode_upper_p29 :: "(nat \<times> nat list) list" where
  "unicode_upper_p29 = [
    (7545, [42877]), (7549, [11363]), (7566, [42950])]"

definition unicode_upper_p30 :: "(nat \<times> nat list) list" where
  "unicode_upper_p30 = [
    (7681, [7680]), (7683, [7682]), (7685, [7684]), (7687, [7686]), (7689, [7688]),
    (7691, [7690]), (7693, [7692]), (7695, [7694]), (7697, [7696]), (7699, [7698]),
    (7701, [7700]), (7703, [7702]), (7705, [7704]), (7707, [7706]), (7709, [7708]),
    (7711, [7710]), (7713, [7712]), (7715, [7714]), (7717, [7716]), (7719, [7718]),
    (7721, [7720]), (7723, [7722]), (7725, [7724]), (7727, [7726]), (7729, [7728]),
    (7731, [7730]), (7733, [7732]), (7735, [7734]), (7737, [7736]), (7739, [7738]),
    (7741, [7740]), (7743, [7742]), (7745, [7744]), (7747, [7746]), (7749, [7748]),
    (7751, [7750]), (7753, [7752]), (7755, [7754]), (7757, [7756]), (7759, [7758]),
    (7761, [7760]), (7763, [7762]), (7765, [7764]), (7767, [7766]), (7769, [7768]),
    (7771, [7770]), (7773, [7772]), (7775, [7774]), (7777, [7776]), (7779, [7778]),
    (7781, [7780]), (7783, [7782]), (7785, [7784]), (7787, [7786]), (7789, [7788]),
    (7791, [7790]), (7793, [7792]), (7795, [7794]), (7797, [7796]), (7799, [7798]),
    (7801, [7800]), (7803, [7802]), (7805, [7804]), (7807, [7806]), (7809, [7808]),
    (7811, [7810]), (7813, [7812]), (7815, [7814]), (7817, [7816]), (7819, [7818]),
    (7821, [7820]), (7823, [7822]), (7825, [7824]), (7827, [7826]), (7829, [7828]),
    (7830, [72, 817]), (7831, [84, 776]), (7832, [87, 778]), (7833, [89, 778]),
    (7834, [65, 702]), (7835, [7776]), (7841, [7840]), (7843, [7842]), (7845, [7844]),
    (7847, [7846]), (7849, [7848]), (7851, [7850]), (7853, [7852]), (7855, [7854]),
    (7857, [7856]), (7859, [7858]), (7861, [7860]), (7863, [7862]), (7865, [7864]),
    (7867, [7866]), (7869, [7868]), (7871, [7870]), (7873, [7872]), (7875, [7874]),
    (7877, [7876]), (7879, [7878]), (7881, [7880]), (7883, [7882]), (7885, [7884]),
    (7887, [7886]), (7889, [7888]), (7891, [7890]), (7893, [7892]), (7895, [7894]),
    (7897, [7896]), (7899, [7898]), (7901, [7900]), (7903, [7902]), (7905, [7904]),
    (7907, [7906]), (7909, [7908]), (7911, [7910]), (7913, [7912]), (7915, [7914]),
    (7917, [7916]), (7919, [7918]), (7921, [7920]), (7923, [7922]), (7925, [7924]),
    (7927, [7926]), (7929, [7928]), (7931, [7930]), (7933, [7932]), (7935, [7934])]"

definition unicode_upper_p31 :: "(nat \<times> nat list) list" where
  "unicode_upper_p31 = [
    (7936, [7944]), (7937, [7945]), (7938, [7946]), (7939, [7947]), (7940, [7948]),
    (7941, [7949]), (7942, [7950]), (7943, [7951]), (7952, [7960]), (7953, [7961]),
    (7954, [7962]), (7955, [7963]), (7956, [7964]), (7957, [7965]), (7968, [7976]),
    (7969, [7977]), (7970, [7978]), (7971, [7979]), (7972, [7980]), (7973, [7981]),
    (7974, [7982]), (7975, [7983]), (7984, [7992]), (7985, [7993]), (7986, [7994]),
    (7987, [7995]), (7988, [7996]), (7989, [7997]), (7990, [7998]), (7991, [7999]),
    (8000, [8008]), (8001, [8009]), (8002, [8010]), (8003, [8011]), (8004, [8012]),
    (8005, [8013]), (8016, [933, 787]), (8017, [8025]), (8018, [933, 787, 768]),
    (8019, [8027]), (8020, [933, 787, 769]), (8021, [8029]), (8022, [933, 787, 834]),
    (8023, [8031]), (8032, [8040]), (8033, [8041]), (8034, [8042]), (8035, [8043]),
    (8036, [8044]), (8037, [8045]), (8038, [8046]), (8039, [8047]), (8048, [8122]),
    (8049, [8123]), (8050, [8136]), (8051, [8137]), (8052, [8138]), (8053, [8139]),
    (8054, [8154]), (8055, [8155]), (8056, [8184]), (8057, [8185]), (8058, [8170]),
    (8059, [8171]), (8060, [8186]), (8061, [8187]), (8064, [7944, 921]), (8065, [7945, 921]),
    (8066, [7946, 921]), (8067, [7947, 921]), (8068, [7948, 921]), (8069, [7949, 921]),
    (8070, [7950, 921]), (8071, [7951, 921]), (8072, [7944, 921]), (8073, [7945, 921]),
    (8074, [7946, 921]), (8075, [7947, 921]), (8076, [7948, 921]), (8077, [7949, 921]),
    (8078, [7950, 921]), (8079, [7951, 921]), (8080, [7976, 921]), (8081, [7977, 921]),
    (8082, [7978, 921]), (8083, [7979, 921]), (8084, [7980, 921]), (8085, [7981, 921]),
    (8086, [7982, 921]), (8087, [7983, 921]), (8088, [7976, 921]), (8089, [7977, 921]),
    (8090, [7978, 921]), (8091, [7979, 921]), (8092, [7980, 921]), (8093, [7981, 921]),
    (8094, [7982, 921]), (8095, [7983, 921]), (8096, [8040, 921]), (8097, [8041, 921]),
    (8098, [8042, 921]), (8099, [8043, 921]), (8100, [8044, 921]), (8101, [8045, 921]),
    (8102, [8046, 921]), (8103, [8047, 921]), (8104, [8040, 921]), (8105, [8041, 921]),
    (8106, [8042, 921]), (8107, [8043, 921]), (8108, [8044, 921]), (8109, [8045, 921]),
    (8110, [8046, 921]), (8111, [8047, 921]), (8112, [8120]), (8113, [8121]),
    (8114, [8122, 921]), (8115, [913, 921]), (8116, [902, 921]), (8118, [913, 834]),
    (8119, [913, 834, 921]), (8124, [913, 921]), (8126, [921]), (8130, [8138, 921]),
    (8131, [919, 921]), (8132, [905, 921]), (8134, [919, 834]), (8135, [919, 834, 921]),
    (8140, [919, 921]), (8144, [8152]), (8145, [8153]), (8146, [921, 776, 768]),
    (8147, [921, 776, 769]), (8150, [921, 834]), (8151, [921, 776, 834]), (8160, [8168]),
    (8161, [8169]), (8162, [933, 776, 768]), (8163, [933, 776, 769]), (8164, [929, 787]),
    (8165, [8172]), (8166, [933, 834]), (8167, [933, 776, 834]), (8178, [8186, 921]),
    (8179, [937, 921]), (8180, [911, 921]), (8182, [937, 834]), (8183, [937, 834, 921]),
    (8188, [937, 921])]"

definition unicode_upper_p33 :: "(nat \<times> nat list) list" where
  "unicode_upper_p33 = [
    (8526, [8498]), (8560, [8544]), (8561, [8545]), (8562, [8546]), (8563, [8547]),
    (8564, [8548]), (8565, [8549]), (8566, [8550]), (8567, [8551]), (8568, [8552]),
    (8569, [8553]), (8570, [8554]), (8571, [8555]), (8572, [8556]), (8573, [8557]),
    (8574, [8558]), (8575, [8559]), (8580, [8579])]"

definition unicode_upper_p36 :: "(nat \<times> nat list) list" where
  "unicode_upper_p36 = [
    (9424, [9398]), (9425, [9399]), (9426, [9400]), (9427, [9401]), (9428, [9402]),
    (9429, [9403]), (9430, [9404]), (9431, [9405]), (9432, [9406]), (9433, [9407]),
    (9434, [9408]), (9435, [9409]), (9436, [9410]), (9437, [9411]), (9438, [9412]),
    (9439, [9413]), (9440, [9414]), (9441, [9415]), (9442, [9416]), (9443, [9417]),
    (9444, [9418]), (9445, [9419]), (9446, [9420]), (9447, [9421]), (9448, [9422]),
    (9449, [9423])]"

definition unicode_upper_p44 :: "(nat \<times> nat list) list" where
  "unicode_upper_p44 = [
    (11312, [11264]), (11313, [11265]), (11314, [11266]), (11315, [11267]), (11316, [11268]),
    (11317, [11269]), (11318, [11270]), (11319, [11271]), (11320, [11272]), (11321, [11273]),
    (11322, [11274]), (11323, [11275]), (11324, [11276]), (11325, [11277]), (11326, [11278]),
    (11327, [11279]), (11328, [11280]), (11329, [11281]), (11330, [11282]), (11331, [11283]),
    (11332, [11284]), (11333, [11285]), (11334, [11286]), (11335, [11287]), (11336, [11288]),
    (11337, [11289]), (11338, [11290]), (11339, [11291]), (11340, [11292]), (11341, [11293]),
    (11342, [11294]), (11343, [11295]), (11344, [11296]), (11345, [11297]), (11346, [11298]),
    (11347, [11299]), (11348, [11300]), (11349, [11301]), (11350, [11302]), (11351, [11303]),
    (11352, [11304]), (11353, [11305]), (11354, [11306]), (11355, [11307]), (11356, [11308]),
    (11357, [11309]), (11358, [11310]), (11359, [11311]), (11361, [11360]), (11365, [570]),
    (11366, [574]), (11368, [11367]), (11370, [11369]), (11372, [11371]), (11379, [11378]),
    (11382, [11381]), (11393, [11392]), (11395, [11394]), (11397, [11396]), (11399, [11398]),
    (11401, [11400]), (11403, [11402]), (11405, [11404]), (11407, [11406]), (11409, [11408]),
    (11411, [11410]), (11413, [11412]), (11415, [11414]), (11417, [11416]), (11419, [11418]),
    (11421, [11420]), (11423, [11422]), (11425, [11424]), (11427, [11426]), (11429, [11428]),
    (11431, [11430]), (11433, [11432]), (11435, [11434]), (11437, [11436]), (11439, [11438]),
    (11441, [11440]), (11443, [11442]), (11445, [11444]), (11447, [11446]), (11449, [11448]),
    (11451, [11450]), (11453, [11452]), (11455, [11454]), (11457, [11456]), (11459, [11458]),
    (11461, [11460]), (11463, [11462]), (11465, [11464]), (11467, [11466]), (11469, [11468]),
    (11471, [11470]), (11473, [11472]), (11475, [11474]), (11477, [11476]), (11479, [11478]),
    (11481, [11480]), (11483, [11482]), (11485, [11484]), (11487, [11486]), (11489, [11488]),
    (11491, [11490]), (11500, [11499]), (11502, [11501]), (11507, [11506])]"

definition unicode_upper_p45 :: "(nat \<times> nat list) list" where
  "unicode_upper_p45 = [
    (11520, [4256]), (11521, [4257]), (11522, [4258]), (11523, [4259]), (11524, [4260]),
    (11525, [4261]), (11526, [4262]), (11527, [4263]), (11528, [4264]), (11529, [4265]),
    (11530, [4266]), (11531, [4267]), (11532, [4268]), (11533, [4269]), (11534, [4270]),
    (11535, [4271]), (11536, [4272]), (11537, [4273]), (11538, [4274]), (11539, [4275]),
    (11540, [4276]), (11541, [4277]), (11542, [4278]), (11543, [4279]), (11544, [4280]),
    (11545, [4281]), (11546, [4282]), (11547, [4283]), (11548, [4284]), (11549, [4285]),
    (11550, [4286]), (11551, [4287]), (11552, [4288]), (11553, [4289]), (11554, [4290]),
    (11555, [4291]), (11556, [4292]), (11557, [4293]), (11559, [4295]), (11565, [4301])]"

definition unicode_upper_p166 :: "(nat \<times> nat list) list" where
  "unicode_upper_p166 = [
    (42561, [42560]), (42563, [42562]), (42565, [42564]), (42567, [42566]), (42569, [42568]),
    (42571, [42570]), (42573, [42572]), (42575, [42574]), (42577, [42576]), (42579, [42578]),
    (42581, [42580]), (42583, [42582]), (42585, [42584]), (42587, [42586]), (42589, [42588]),
    (42591, [42590]), (42593, [42592]), (42595, [42594]), (42597, [42596]), (42599, [42598]),
    (42601, [42600]), (42603, [42602]), (42605, [42604]), (42625, [42624]), (42627, [42626]),
    (42629, [42628]), (42631, [42630]), (42633, [42632]), (42635, [42634]), (42637, [42636]),
    (42639, [42638]), (42641, [42640]), (42643, [42642]), (42645, [42644]), (42647, [42646]),
    (42649, [42648]), (42651, [42650])]"

definition unicode_upper_p167 :: "(nat \<times> nat list) list" where
  "unicode_upper_p167 = [
    (42787, [42786]), (42789, [42788]), (42791, [42790]), (42793, [42792]), (42795, [42794]),
    (42797, [42796]), (42799, [42798]), (42803, [42802]), (42805, [42804]), (42807, [42806]),
    (42809, [42808]), (42811, [42810]), (42813, [42812]), (42815, [42814]), (42817, [42816]),
    (42819, [42818]), (42821, [42820]), (42823, [42822]), (42825, [42824]), (42827, [42826]),
    (42829, [42828]), (42831, [42830]), (42833, [42832]), (42835, [42834]), (42837, [42836]),
    (42839, [42838]), (42841, [42840]), (42843, [42842]), (42845, [42844]), (42847, [42846]),
    (42849, [42848]), (42851, [42850]), (42853, [42852]), (42855, [42854]), (42857, [42856]),
    (42859, [42858]), (42861, [42860]), (42863, [42862]), (42874, [42873]), (42876, [42875]),
    (42879, [42878]), (42881, [42880]), (42883, [42882]), (42885, [42884]), (42887, [42886]),
    (42892, [42891]), (42897, [42896]), (42899, [42898]), (42900, [42948]), (42903, [42902]),
    (42905, [42904]), (42907, [42906]), (42909, [42908]), (42911, [42910]), (42913, [42912]),
    (42915, [42914]), (42917, [42916]), (42919, [42918]), (42921, [42920]), (42933, [42932]),
    (42935, [42934]), (42937, [42936]), (42939, [42938]), (42941, [42940]), (42943, [42942]),
    (42945, [42944]), (42947, [42946]), (42952, [42951]), (42954, [42953]), (42961, [42960]),
    (42967, [42966]), (42969, [42968]), (42998, [42997])]"

definition unicode_upper_p171 :: "(nat \<times> nat list) list" where
  "unicode_upper_p171 = [
    (43859, [42931]), (43888, [5024]), (43889, [5025]), (43890, [5026]), (43891, [5027]),
    (43892, [5028]), (43893, [5029]), (43894, [5030]), (43895, [5031]), (43896, [5032]),
    (43897, [5033]), (43898, [5034]), (43899, [5035]), (43900, [5036]), (43901, [5037]),
    (43902, [5038]), (43903, [5039]), (43904, [5040]), (43905, [5041]), (43906, [5042]),
    (43907, [5043]), (43908, [5044]), (43909, [5045]), (43910, [5046]), (43911, [5047]),
    (43912, [5048]), (43913, [5049]), (43914, [5050]), (43915, [5051]), (43916, [5052]),
    (43917, [5053]), (43918, [5054]), (43919, [5055]), (43920, [5056]), (43921, [5057]),
    (43922, [5058]), (43923, [5059]), (43924, [5060]), (43925, [5061]), (43926, [5062]),
    (43927, [5063]), (43928, [5064]), (43929, [5065]), (43930, [5066]), (43931, [5067]),
    (43932, [5068]), (43933, [5069]), (43934, [5070]), (43935, [5071]), (43936, [5072]),
    (43937, [5073]), (43938, [5074]), (43939, [5075]), (43940, [5076]), (43941, [5077]),
    (43942, [5078]), (43943, [5079]), (43944, [5080]), (43945, [5081]), (43946, [5082]),
    (43947, [5083]), (43948, [5084]), (43949, [5085]), (43950, [5086]), (43951, [5087]),
    (43952, [5088]), (43953, [5089]), (43954, [5090]), (43955, [5091]), (43956, [5092]),
    (43957, [5093]), (43958, [5094]), (43959, [5095]), (43960, [5096]), (43961, [5097]),
    (43962, [5098]), (43963, [5099]), (43964, [5100]), (43965, [5101]), (43966, [5102]),
    (43967, [5103])]"

definition unicode_upper_p251 :: "(nat \<times> nat list) list" where
  "unicode_upper_p251 = [
    (64256, [70, 70]), (64257, [70, 73]), (64258, [70, 76]), (64259, [70, 70, 73]),
    (64260, [70, 70, 76]), (64261, [83, 84]), (64262, [83, 84]), (64275, [1348, 1350]),
    (64276, [1348, 1333]), (64277, [1348, 1339]), (64278, [1358, 1350]), (64279, [1348, 1341])]"

definition unicode_upper_p255 :: "(nat \<times> nat list) list" where
  "unicode_upper_p255 = [
    (65345, [65313]), (65346, [65314]), (65347, [65315]), (65348, [65316]), (65349, [65317]),
    (65350, [65318]), (65351, [65319]), (65352, [65320]), (65353, [65321]), (65354, [65322]),
    (65355, [65323]), (65356, [65324]), (65357, [65325]), (65358, [65326]), (65359, [65327]),
    (65360, [65328]), (65361, [65329]), (65362, [65330]), (65363, [65331]), (65364, [65332]),
    (65365, [65333]), (65366, [65334]), (65367, [65335]), (65368, [65336]), (65369, [65337]),
    (65370, [65338])]"

definition unicode_upper_p260 :: "(nat \<times> nat list) list" where
  "unicode_upper_p260 = [
    (66600, [66560]), (66601, [66561]), (66602, [66562]), (66603, [66563]), (66604, [66564]),
    (66605, [66565]), (66606, [66566]), (66607, [66567]), (66608, [66568]), (66609, [66569]),
    (66610, [66570]), (66611, [66571]), (66612, [66572]), (66613, [66573]), (66614, [66574]),
    (66615, [66575]), (66616, [66576]), (66617, [66577]), (66618, [66578]), (66619, [66579]),
    (66620, [66580]), (66621, [66581]), (66622, [66582]), (66623, [66583]), (66624, [66584]),
    (66625, [66585]), (66626, [66586]), (66627, [66587]), (66628, [66588]), (66629, [66589]),
    (66630, [66590]), (66631, [66591]), (66632, [66592]), (66633, [66593]), (66634, [66594]),
    (66635, [66595]), (66636, [66596]), (66637, [66597]), (66638, [66598]), (66639, [66599]),
    (66776, [66736]), (66777, [66737]), (66778, [66738]), (66779, [66739]), (66780, [66740]),
    (66781, [66741]), (66782, [66742]), (66783, [66743]), (66784, [66744]), (66785, [66745]),
    (66786, [66746]), (66787, [66747]), (66788, [66748]), (66789, [66749]), (66790, [66750]),
    (66791, [66751]), (66792, [66752]), (66793, [66753]), (66794, [66754]), (66795, [66755]),
    (66796, [66756]), (66797, [66757]), (66798, [66758]), (66799, [66759]), (66800, [66760]),
    (66801, [66761]), (66802, [66762]), (66803, [66763]), (66804, [66764]), (66805, [66765]),
    (66806, [66766]), (66807, [66767]), (66808, [66768]), (66809, [66769]), (66810, [66770]),
    (66811, [66771])]"

definition unicode_upper_p261 :: "(nat \<times> nat list) list" where
  "unicode_upper_p261 = [
    (66967, [66928]), (66968, [66929]), (66969, [66930]), (66970, [66931]), (66971, [66932]),
    (66972, [66933]), (66973, [66934]), (66974, [66935]), (66975, [66936]), (66976, [66937]),
    (66977, [66938]), (66979, [66940]), (66980, [66941]), (66981, [66942]), (66982, [66943]),
    (66983, [66944]), (66984, [66945]), (66985, [66946]), (66986, [66947]), (66987, [66948]),
    (66988, [66949]), (66989, [66950]), (66990, [66951]), (66991, [66952]), (66992, [66953]),
    (66993, [66954]), (66995, [66956]), (66996, [66957]), (66997, [66958]), (66998, [66959]),
    (66999, [66960]), (67000, [66961]), (67001, [66962]), (67003, [66964]), (67004, [66965])]"

definition unicode_upper_p268 :: "(nat \<times> nat list) list" where
  "unicode_upper_p268 = [
    (68800, [68736]), (68801, [68737]), (68802, [68738]), (68803, [68739]), (68804, [68740]),
    (68805, [68741]), (68806, [68742]), (68807, [68743]), (68808, [68744]), (68809, [68745]),
    (68810, [68746]), (68811, [68747]), (68812, [68748]), (68813, [68749]), (68814, [68750]),
    (68815, [68751]), (68816, [68752]), (68817, [68753]), (68818, [68754]), (68819, [68755]),
    (68820, [68756]), (68821, [68757]), (68822, [68758]), (68823, [68759]), (68824, [68760]),
    (68825, [68761]), (68826, [68762]), (68827, [68763]), (68828, [68764]), (68829, [68765]),
    (68830, [68766]), (68831, [68767]), (68832, [68768]), (68833, [68769]), (68834, [68770]),
    (68835, [68771]), (68836, [68772]), (68837, [68773]), (68838, [68774]), (68839, [68775]),
    (68840, [68776]), (68841, [68777]), (68842, [68778]), (68843, [68779]), (68844, [68780]),
    (68845, [68781]), (68846, [68782]), (68847, [68783]), (68848, [68784]), (68849, [68785]),
    (68850, [68786])]"

definition unicode_upper_p280 :: "(nat \<times> nat list) list" where
  "unicode_upper_p280 = [
    (71872, [71840]), (71873, [71841]), (71874, [71842]), (71875, [71843]), (71876, [71844]),
    (71877, [71845]), (71878, [71846]), (71879, [71847]), (71880, [71848]), (71881, [71849]),
    (71882, [71850]), (71883, [71851]), (71884, [71852]), (71885, [71853]), (71886, [71854]),
    (71887, [71855]), (71888, [71856]), (71889, [71857]), (71890, [71858]), (71891, [71859]),
    (71892, [71860]), (71893, [71861]), (71894, [71862]), (71895, [71863]), (71896, [71864]),
    (71897, [71865]), (71898, [71866]), (71899, [71867]), (71900, [71868]), (71901, [71869]),
    (71902, [71870]), (71903, [71871])]"

definition unicode_upper_p366 :: "(nat \<times> nat list) list" where
  "unicode_upper_p366 = [
    (93792, [93760]), (93793, [93761]), (93794, [93762]), (93795, [93763]), (93796, [93764]),
    (93797, [93765]), (93798, [93766]), (93799, [93767]), (93800, [93768]), (93801, [93769]),
    (93802, [93770]), (93803, [93771]), (93804, [93772]), (93805, [93773]), (93806, [93774]),
    (93807, [93775]), (93808, [93776]), (93809, [93777]), (93810, [93778]), (93811, [93779]),
    (93812, [93780]), (93813, [93781]), (93814, [93782]), (93815, [93783]), (93816, [93784]),
    (93817, [93785]), (93818, [93786]), (93819, [93787]), (93820, [93788]), (93821, [93789]),
    (93822, [93790]), (93823, [93791])]"

definition unicode_upper_p489 :: "(nat \<times> nat list) list" where
  "unicode_upper_p489 = [
    (125218, [125184]), (125219, [125185]), (125220, [125186]), (125221, [125187]),
    (125222, [125188]), (125223, [125189]), (125224, [125190]), (125225, [125191]),
    (125226, [125192]), (125227, [125193]), (125228, [125194]), (125229, [125195]),
    (125230, [125196]), (125231, [125197]), (125232, [125198]), (125233, [125199]),
    (125234, [125200]), (125235, [125201]), (125236, [125202]), (125237, [125203]),
    (125238, [125204]), (125239, [125205]), (125240, [125206]), (125241, [125207]),
    (125242, [125208]), (125243, [125209]), (125244, [125210]), (125245, [125211]),
    (125246, [125212]), (125247, [125213]), (125248, [125214]), (125249, [125215]),
    (125250, [125216]), (125251, [125217])]"

definition unicode_upper :: "nat \<Rightarrow> (nat \<times> nat list) list" where
  "unicode_upper p =
     (if p = 0 then unicode_upper_p0
      else if p = 1 then unicode_upper_p1
      else if p = 2 then unicode_upper_p2
      else if p = 3 then unicode_upper_p3
      else if p = 4 then unicode_upper_p4
      else if p = 5 then unicode_upper_p5
      else if p = 16 then unicode_upper_p16
      else if p = 19 then unicode_upper_p19
      else if p = 28 then unicode_upper_p28
      else if p = 29 then unicode_upper_p29
      else if p = 30 then unicode_upper_p30
      else if p = 31 then unicode_upper_p31
      else if p = 33 then unicode_upper_p33
      else if p = 36 then unicode_upper_p36
      else if p = 44 then unicode_upper_p44
      else if p = 45 then unicode_upper_p45
      else if p = 166 then unicode_upper_p166
      else if p = 167 then unicode_upper_p167
      else if p = 171 then unicode_upper_p171
      else if p = 251 then unicode_upper_p251
      else if p = 255 then unicode_upper_p255
      else if p = 260 then unicode_upper_p260
      else if p = 261 then unicode_upper_p261
      else if p = 268 then unicode_upper_p268
      else if p = 280 then unicode_upper_p280
      else if p = 366 then unicode_upper_p366
      else if p = 489 then unicode_upper_p489
      else [])"

text \<open>\<open>str.upper()\<close>: each code point is replaced by its upper-casing.\<close>

definition upper_cp :: "nat \<Rightarrow> nat list" where
  "upper_cp c =
     (if c < 128 then [if 97 \<le> c \<and> c \<le> 122 then c - 32 else c]
      else case map_of (unicode_upper (c div 256)) c of None \<Rightarrow> [c] | Some u \<Rightarrow> u)"

definition upper :: "string \<Rightarrow> string" where
  "upper s = str_of (concat (map upper_cp (codepoints s)))"

text \<open>\<open>str.strip()\<close>: white space is removed at both ends.\<close>

definition is_space :: "nat \<Rightarrow> bool" where
  "is_space c = (c \<in> set unicode_whitespace)"

definition strip_cps :: "nat list \<Rightarrow> nat list" where
  "strip_cps cs = rev (dropWhile is_space (rev (dropWhile is_space cs)))"

definition strip :: "string \<Rightarrow> string" where
  "strip s = str_of (strip_cps (codepoints s))"

section \<open>MD5 (RFC 1321), as \<open>hashlib.md5\<close> computes it\<close>

definition md5_K :: "u32 list" where
  "md5_K = [
    0xd76aa478, 0xe8c7b756, 0x242070db, 0xc1bdceee, 0xf57c0faf, 0x4787c62a, 0xa8304613, 0xfd469501,
    0x698098d8, 0x8b44f7af, 0xffff5bb1, 0x895cd7be, 0x6b901122, 0xfd987193, 0xa679438e, 0x49b40821,
    0xf61e2562, 0xc040b340, 0x265e5a51, 0xe9b6c7aa, 0xd62f105d, 0x02441453, 0xd8a1e681, 0xe7d3fbc8,
    0x21e1cde6, 0xc33707d6, 0xf4d50d87, 0x455a14ed, 0xa9e3e905, 0xfcefa3f8, 0x676f02d9, 0x8d2a4c8a,
    0xfffa3942, 0x8771f681, 0x6d9d6122, 0xfde5380c, 0xa4beea44, 0x4bdecfa9, 0xf6bb4b60, 0xbebfbc70,
    0x289b7ec6, 0xeaa127fa, 0xd4ef3085, 0x04881d05, 0xd9d4d039, 0xe6db99e5, 0x1fa27cf8, 0xc4ac5665,
    0xf4292244, 0x432aff97, 0xab9423a7, 0xfc93a039, 0x655b59c3, 0x8f0ccc92, 0xffeff47d, 0x85845dd1,
    0x6fa87e4f, 0xfe2ce6e0, 0xa3014314, 0x4e0811a1, 0xf7537e82, 0xbd3af235, 0x2ad7d2bb, 0xeb86d391]"

definition md5_S :: "nat list" where
  "md5_S = [7, 12, 17, 22, 7, 12, 17, 22, 7, 12, 17, 22, 7, 12, 17, 22,
            5, 9, 14, 20, 5, 9, 14, 20, 5, 9, 14, 20, 5, 9, 14, 20,
            4, 11, 16, 23, 4, 11, 16, 23, 4, 11, 16, 23, 4, 11, 16, 23,
            6, 10, 15, 21, 6, 10, 15, 21, 6, 10, 15, 21, 6, 10, 15, 21]"

definition le_bytes :: "nat \<Rightarrow> nat \<Rightarrow> byte list" where
  "le_bytes n v = map (\<lambda>i. of_nat (v div 256 ^ i)) [0..<n]"

definition md5_pad :: "byte list \<Rightarrow> byte list" where
  "md5_pad m = m @ [0x80] @ replicate ((119 - length m mod 64) mod 64) 0
                 @ le_bytes 8 ((8 * length m) mod 2 ^ 64)"

fun le_words :: "byte list \<Rightarrow> u32 list" where
  "le_words (b0 # b1 # b2 # b3 # bs) =
     (ucast b0 OR push_bit 8 (ucast b1) OR push_bit 16 (ucast b2) OR push_bit 24 (ucast b3))
       # le_words bs"
| "le_words _ = []"

definition rotl32 :: "nat \<Rightarrow> u32 \<Rightarrow> u32" where
  "rotl32 n w = push_bit n w OR drop_bit (32 - n) w"

definition md5_step ::
  "u32 list \<Rightarrow> u32 \<times> u32 \<times> u32 \<times> u32 \<Rightarrow> nat \<Rightarrow> u32 \<times> u32 \<times> u32 \<times> u32" where
  "md5_step M st i = (case st of (a, b, c, d) \<Rightarrow>
     let f = (if i < 16 then (b AND c) OR (NOT b AND d)
              else if i < 32 then (d AND b) OR (NOT d AND c)
              else if i < 48 then b XOR c XOR d
              else c XOR (b OR NOT d));
         g = (if i < 16 then i
              else if i < 32 then (5 * i + 1) mod 16
              else if i < 48 then (3 * i + 5) mod 16
              else (7 * i) mod 16)
     in (d, b + rotl32 (md5_S ! i) (a + f + md5_K ! i + M ! g), b, c))"

definition md5_block :: "u32 \<times> u32 \<times> u32 \<times> u32 \<Rightarrow> u32 list \<Rightarrow> u32 \<times> u32 \<times> u32 \<times> u32" where
  "md5_block st M = (case st of (a0, b0, c0, d0) \<Rightarrow>
     case foldl (md5_step M) st [0..<64] of (a, b, c, d) \<Rightarrow> (a0 + a, b0 + b, c0 + c, d0 + d))"

fun md5_blocks :: "u32 \<times> u32 \<times> u32 \<times> u32 \<Rightarrow> u32 list \<Rightarrow> u32 \<times> u32 \<times> u32 \<times> u32" where
  "md5_blocks st ws = (if length ws < 16 then st
                       else md5_blocks (md5_block st (take 16 ws)) (drop 16 ws))"

declare md5_blocks.simps [simp del]

definition md5 :: "byte list \<Rightarrow> byte list" where
  "md5 m = (case md5_blocks (0x67452301, 0xefcdab89, 0x98badcfe, 0x10325476) (le_words (md5_pad m))
            of (a, b, c, d) \<Rightarrow> concat (map (\<lambda>w. le_bytes 4 (unat w)) [a, b, c, d]))"

definition hex_digit :: "nat \<Rightarrow> char" where
  "hex_digit n = ''0123456789abcdef'' ! n"

definition hexdigest :: "byte list \<Rightarrow> string" where
  "hexdigest bs = concat (map (\<lambda>b. [hex_digit (unat b div 16), hex_digit (unat b mod 16)]) bs)"

definition encode_utf8 :: "string \<Rightarrow> byte list" where
  "encode_utf8 s = map of_char s"

section \<open>robokassa\_client.py\<close>

definition ROBOKASSA_GATEWAY :: string where
  "ROBOKASSA_GATEWAY = ''https://auth.robokassa.ru/Merchant/Index.aspx''"

definition format_shp_part :: "string pydict \<Rightarrow> string" where
  "format_shp_part shp =
     (if shp = [] then ''''
      else join '':'' (map (\<lambda>(k, v). ''Shp_'' @ k @ ''='' @ v) (sort_key fst shp)))"

definition md5_upper :: "string \<Rightarrow> string" where
  "md5_upper s = upper (hexdigest (md5 (encode_utf8 s)))"

definition or_empty :: "string pydict option \<Rightarrow> string pydict" where
  "or_empty shp = (case shp of None \<Rightarrow> [] | Some d \<Rightarrow> d)"

definition build_signature :: "string \<Rightarrow> string \<Rightarrow> string \<Rightarrow> string \<Rightarrow> string pydict option \<Rightarrow> string" where
  "build_signature merchant_login password1 out_sum inv_id shp =
     (let shp = or_empty shp;
          base_for_sign = merchant_login @ '':'' @ out_sum @ '':'' @ inv_id @ '':'' @ password1;
          shp_part = format_shp_part shp;
          base_for_sign = (if shp_part \<noteq> '''' then base_for_sign @ '':'' @ shp_part
                           else base_for_sign)
      in md5_upper base_for_sign)"

definition build_payment_params ::
  "string \<Rightarrow> string \<Rightarrow> string \<Rightarrow> string \<Rightarrow> string option \<Rightarrow> string pydict option \<Rightarrow> bool
     \<Rightarrow> string pydict option \<Rightarrow> string pydict" where
  "build_payment_params merchant_login password1 out_sum inv_id description shp is_test extra_params =
     (let signature = build_signature merchant_login password1 out_sum inv_id shp;
          shp = or_empty shp;
          params = [(''MerchantLogin'', merchant_login), (''OutSum'', out_sum),
                    (''InvId'', inv_id), (''SignatureValue'', signature)];
          params = (case description of
                      None \<Rightarrow> params
                    | Some d \<Rightarrow> if d \<noteq> '''' then dict_set params ''Description'' d else params);
          params = (if is_test then dict_set params ''IsTest'' ''1'' else params);
          params = foldl (\<lambda>acc (k, v). dict_set acc (''Shp_'' @ k) v) params shp
      in case extra_params of
           None \<Rightarrow> params
         | Some e \<Rightarrow> if e \<noteq> [] then dict_update params e else params)"

definition hex_upper :: "nat \<Rightarrow> char" where
  "hex_upper n = ''0123456789ABCDEF'' ! n"

definition quote_plus :: "string \<Rightarrow> string" where
  "quote_plus s = concat (map (\<lambda>c.
       let n = (of_char c :: nat) in
       if (48 \<le> n \<and> n \<le> 57) \<or> (65 \<le> n \<and> n \<le> 90) \<or> (97 \<le> n \<and> n \<le> 122)
          \<or> c \<in> set ''_.-~'' then [c]
       else if c = CHR '' '' then ''+''
       else [CHR ''%'', hex_upper (n div 16), hex_upper (n mod 16)]) s)"

definition urlencode :: "string pydict \<Rightarrow> string" where
  "urlencode params = join ''&'' (map (\<lambda>(k, v). quote_plus k @ ''='' @ quote_plus v) params)"

definition build_payment_url ::
  "string \<Rightarrow> string \<Rightarrow> string \<Rightarrow> string \<Rightarrow> string option \<Rightarrow> string pydict option \<Rightarrow> bool
     \<Rightarrow> string pydict option \<Rightarrow> string" where
  "build_payment_url merchant_login password1 out_sum inv_id description shp is_test extra_params =
     ROBOKASSA_GATEWAY @ ''?'' @
       urlencode (build_payment_params merchant_login password1 out_sum inv_id description shp
                    is_test extra_params)"

definition verify_signature_from_result ::
  "string \<Rightarrow> string \<Rightarrow> string \<Rightarrow> string \<Rightarrow> string pydict option \<Rightarrow> bool" where
  "verify_signature_from_result out_sum inv_id signature_value password2 shp =
     (let shp = or_empty shp;
          base = out_sum @ '':'' @ inv_id @ '':'' @ password2;
          shp_part = format_shp_part shp;
          base = (if shp_part \<noteq> '''' then base @ '':'' @ shp_part else base);
          expected = md5_upper base
      in expected = upper signature_value)"

section \<open>app.py: the order store and the request handlers\<close>

text \<open>
  A \<open>Decimal\<close> value: a finite number \<open>(-1)^sign * coefficient * 10^exponent\<close>, an
  infinity or a NaN (quiet or signalling, with its diagnostic number).
\<close>

datatype decimal = Finite bool nat int | Infinity bool | NaN bool bool nat

subsection \<open>The \<open>decimal\<close> library calls\<close>

text \<open>
  \<open>Decimal(str)\<close>, the comparison \<open>amount <= 0\<close> and \<open>str(Decimal)\<close>.
  The constructor drops white space at both ends and every underscore, reads any
  Unicode decimal digit as its ASCII digit, and then accepts a signed number with an
  optional fraction and exponent, an infinity or a NaN, in either letter case. It is
  exact and refuses a number outside the range of the 64-bit build: an adjusted
  exponent above \<open>999999999999999999\<close> or an exponent below
  \<open>-1999999999999999997\<close>. A refused string (\<open>InvalidOperation\<close>) is \<open>None\<close>.
\<close>

definition is_digit :: "nat \<Rightarrow> bool" where
  "is_digit c = (48 \<le> c \<and> c \<le> 57)"

definition ascii_upper :: "nat \<Rightarrow> nat" where
  "ascii_upper c = (if 97 \<le> c \<and> c \<le> 122 then c - 32 else c)"

definition asc :: "string \<Rightarrow> nat list" where
  "asc s = map of_char s"

definition digit_value :: "nat \<Rightarrow> nat option" where
  "digit_value c =
     (case filter (\<lambda>z. z \<le> c \<and> c \<le> z + 9) unicode_digit_zeros of
        [] \<Rightarrow> None
      | z # _ \<Rightarrow> Some (c - z))"

text \<open>
  The conversion of the text to ASCII before parsing: an ASCII character other than NUL
  stays, white space inside becomes a blank, a decimal digit becomes its ASCII digit,
  and any other character makes the text invalid.
\<close>

fun as_ascii :: "nat list \<Rightarrow> nat list option" where
  "as_ascii [] = Some []"
| "as_ascii (c # cs) =
     (case (if 0 < c \<and> c < 128 then Some c
            else if is_space c then Some 32
            else map_option (\<lambda>d. 48 + d) (digit_value c)) of
        None \<Rightarrow> None
      | Some a \<Rightarrow> map_option (\<lambda>r. a # r) (as_ascii cs))"

definition nat_of_digits :: "nat list \<Rightarrow> nat" where
  "nat_of_digits ds = foldl (\<lambda>n c. 10 * n + (c - 48)) 0 ds"

fun str_nat :: "nat \<Rightarrow> string" where
  "str_nat n = (if n < 10 then [char_of (48 + n)]
                else str_nat (n div 10) @ [char_of (48 + n mod 10)])"

declare str_nat.simps [simp del]

definition parse_exponent :: "nat list \<Rightarrow> int option" where
  "parse_exponent s =
     (case s of
        [] \<Rightarrow> None
      | c # r \<Rightarrow>
          if c = 45 then
            (if r \<noteq> [] \<and> list_all is_digit r then Some (- int (nat_of_digits r)) else None)
          else if c = 43 then
            (if r \<noteq> [] \<and> list_all is_digit r then Some (int (nat_of_digits r)) else None)
          else if list_all is_digit s then Some (int (nat_of_digits s)) else None)"

definition finite_decimal :: "bool \<Rightarrow> nat \<Rightarrow> int \<Rightarrow> decimal option" where
  "finite_decimal sign c e =
     (if (if c \<noteq> 0 then e + int (length (str_nat c)) - 1 \<le> 999999999999999999
          else e \<le> 999999999999999999)
         \<and> - 1999999999999999997 \<le> e
      then Some (Finite sign c e) else None)"

definition Decimal_of_str :: "string \<Rightarrow> decimal option" where
  "Decimal_of_str v =
     (case as_ascii (filter (\<lambda>c. c \<noteq> 95) (strip_cps (codepoints v))) of
        None \<Rightarrow> None
      | Some s \<Rightarrow>
          let sign = (s \<noteq> [] \<and> hd s = 45);
              body = (if s \<noteq> [] \<and> (hd s = 45 \<or> hd s = 43) then tl s else s);
              intpart = takeWhile is_digit body;
              after_int = dropWhile is_digit body;
              has_point = (after_int \<noteq> [] \<and> hd after_int = 46);
              fracpart = (if has_point then takeWhile is_digit (tl after_int) else []);
              rest = (if has_point then dropWhile is_digit (tl after_int) else after_int)
          in if intpart @ fracpart \<noteq> [] then
               (if rest = [] then
                  finite_decimal sign (nat_of_digits (intpart @ fracpart)) (- int (length fracpart))
                else if ascii_upper (hd rest) = 69 then
                  (case parse_exponent (tl rest) of
                     None \<Rightarrow> None
                   | Some e \<Rightarrow>
                       finite_decimal sign (nat_of_digits (intpart @ fracpart))
                         (e - int (length fracpart)))
                else None)
             else if map ascii_upper body = asc ''INF'' \<or> map ascii_upper body = asc ''INFINITY''
               then Some (Infinity sign)
             else if map ascii_upper (take 3 body) = asc ''NAN'' \<and> list_all is_digit (drop 3 body)
               then Some (NaN sign False (nat_of_digits (drop 3 body)))
             else if map ascii_upper (take 4 body) = asc ''SNAN'' \<and> list_all is_digit (drop 4 body)
               then Some (NaN sign True (nat_of_digits (drop 4 body)))
             else None)"

text \<open>\<open>amount <= 0\<close>: an ordering comparison with a NaN raises \<open>InvalidOperation\<close>.\<close>

definition decimal_le_zero :: "decimal \<Rightarrow> bool option" where
  "decimal_le_zero x =
     (case x of
        Finite sign c e \<Rightarrow> Some (sign \<or> c = 0)
      | Infinity sign \<Rightarrow> Some sign
      | NaN sign signalling payload \<Rightarrow> None)"

definition str_int_signed :: "int \<Rightarrow> string" where
  "str_int_signed i = (if i < 0 then ''-'' @ str_nat (nat (- i)) else ''+'' @ str_nat (nat i))"

definition str_decimal :: "decimal \<Rightarrow> string" where
  "str_decimal x =
     (case x of
        Infinity sign \<Rightarrow> (if sign then ''-'' else '''') @ ''Infinity''
      | NaN sign signalling payload \<Rightarrow>
          (if sign then ''-'' else '''') @ (if signalling then ''sNaN'' else ''NaN'')
            @ (if payload = 0 then '''' else str_nat payload)
      | Finite sign c e \<Rightarrow>
          let digits = str_nat c;
              n = int (length digits);
              leftdigits = e + n;
              dotplace = (if e \<le> 0 \<and> leftdigits > - 6 then leftdigits else 1);
              intpart = (if dotplace \<le> 0 then ''0''
                         else if dotplace \<ge> n then digits @ replicate (nat (dotplace - n)) CHR ''0''
                         else take (nat dotplace) digits);
              fracpart = (if dotplace \<le> 0 then ''.'' @ replicate (nat (- dotplace)) CHR ''0'' @ digits
                          else if dotplace \<ge> n then ''''
                          else ''.'' @ drop (nat dotplace) digits);
              ex = (if leftdigits = dotplace then ''''
                    else ''E'' @ str_int_signed (leftdigits - dotplace))
          in (if sign then ''-'' else '''') @ intpart @ fracpart @ ex)"

text \<open>
  An entry of \<open>ORDERS\<close>. The keys \<open>"shp"\<close> and \<open>"robokassa"\<close> may be absent
  (\<open>None\<close>); \<open>"amount"\<close> and \<open>"description"\<close> are always present and may hold
  Python's \<open>None\<close>. The \<open>"robokassa"\<close> dictionary only ever receives the two keys
  \<open>"OutSum"\<close> and \<open>"shp"\<close>, both at once.
\<close>

record robokassa_data =
  rk_OutSum :: string
  rk_shp :: "string pydict"

record order =
  o_id :: string
  o_amount :: "decimal option"
  o_description :: "string option"
  o_status :: string
  o_shp :: "string pydict option"
  o_robokassa :: "robokassa_data option"

type_synonym store = "order pydict"

record config =
  ROBOKASSA_MERCHANT_LOGIN :: string
  ROBOKASSA_PASSWORD1 :: string
  ROBOKASSA_PASSWORD2 :: string
  ROBOKASSA_TEST_MODE :: bool

text \<open>
  A request carries its query arguments and its form fields, each a multi-dictionary: a
  list of pairs in the order received, where \<open>get\<close> returns the first value of a key and
  \<open>items()\<close> lists every key once with its first value.
\<close>

record request =
  args :: "(string \<times> string) list"
  form :: "(string \<times> string) list"

definition multi_get :: "(string \<times> string) list \<Rightarrow> string \<Rightarrow> string \<Rightarrow> string" where
  "multi_get m k dflt = (case map_of m k of None \<Rightarrow> dflt | Some v \<Rightarrow> v)"

definition multi_items :: "(string \<times> string) list \<Rightarrow> (string \<times> string) list" where
  "multi_items m =
     foldl (\<lambda>acc (k, v). if k \<in> fst ` set acc then acc else acc @ [(k, v)]) [] m"

text \<open>The comprehension \<open>{k[4:]: v for k, v in items if k.startswith("Shp_")}\<close>.\<close>

definition shp_params :: "(string \<times> string) list \<Rightarrow> string pydict" where
  "shp_params items =
     foldl (\<lambda>d (k, v). if startswith k ''Shp_'' then dict_set d (drop 4 k) v else d) [] items"

datatype payment_data = Known order | Unknown string string

datatype response =
    Text string nat
  | Redirect string nat
  | FailPage string string nat
  | SuccessPage string payment_data
  | IndexPage store

definition get_order_data :: "store \<Rightarrow> string \<Rightarrow> order option" where
  "get_order_data ORDERS order_id = map_of ORDERS order_id"

definition update_order_status ::
  "string \<Rightarrow> string \<Rightarrow> robokassa_data option \<Rightarrow> store \<Rightarrow> store" where
  "update_order_status order_id st robokassa_data ORDERS =
     (case map_of ORDERS order_id of
        None \<Rightarrow>
          dict_set ORDERS order_id
            \<lparr>o_id = order_id, o_amount = None, o_description = None, o_status = st,
             o_shp = None, o_robokassa = None\<rparr>
      | Some order \<Rightarrow>
          let order = order\<lparr>o_status := st\<rparr>;
              order = (case robokassa_data of
                         None \<Rightarrow> order
                       | Some rd \<Rightarrow> order\<lparr>o_robokassa := Some rd\<rparr>)
          in dict_set ORDERS order_id order)"

definition index :: "store \<Rightarrow> response \<times> store" where
  "index ORDERS = (IndexPage ORDERS, ORDERS)"

definition payment_success :: "config \<Rightarrow> request \<Rightarrow> store \<Rightarrow> response \<times> store" where
  "payment_success cfg req ORDERS =
     (let out_sum = multi_get (args req) ''OutSum'' '''';
          inv_id = multi_get (args req) ''InvId'' '''';
          signature = multi_get (args req) ''SignatureValue'' '''';
          shp = shp_params (multi_items (args req));
          base = ROBOKASSA_MERCHANT_LOGIN cfg @ '':'' @ out_sum @ '':'' @ inv_id @ '':''
                   @ ROBOKASSA_PASSWORD1 cfg;
          shp_part = format_shp_part shp;
          base = (if shp_part \<noteq> '''' then base @ '':'' @ shp_part else base);
          expected = md5_upper base
      in if expected \<noteq> upper signature
         then (FailPage ''Invalid signature'' inv_id 400, ORDERS)
         else (case get_order_data ORDERS inv_id of
                 Some order \<Rightarrow> (SuccessPage inv_id (Known order), ORDERS)
               | None \<Rightarrow> (SuccessPage inv_id (Unknown inv_id out_sum), ORDERS)))"

definition payment_fail_message :: string where
  "payment_fail_message =
     [CHR 0xD0, CHR 0x9F, CHR 0xD0, CHR 0xBB, CHR 0xD0, CHR 0xB0, CHR 0xD1, CHR 0x82, CHR 0xD1,
      CHR 0x91, CHR 0xD0, CHR 0xB6, CHR 0x20, CHR 0xD0, CHR 0xBE, CHR 0xD1, CHR 0x82, CHR 0xD0,
      CHR 0xBC, CHR 0xD0, CHR 0xB5, CHR 0xD0, CHR 0xBD, CHR 0xD1, CHR 0x91, CHR 0xD0, CHR 0xBD,
      CHR 0x20, CHR 0xD0, CHR 0xB8, CHR 0xD0, CHR 0xBB, CHR 0xD0, CHR 0xB8, CHR 0x20, CHR 0xD0,
      CHR 0xBD, CHR 0xD0, CHR 0xB5, CHR 0x20, CHR 0xD0, CHR 0xBF, CHR 0xD1, CHR 0x80, CHR 0xD0,
      CHR 0xBE, CHR 0xD1, CHR 0x88, CHR 0xD1, CHR 0x91, CHR 0xD0, CHR 0xBB]"

definition payment_fail :: "request \<Rightarrow> store \<Rightarrow> response \<times> store" where
  "payment_fail req ORDERS =
     (FailPage payment_fail_message (multi_get (args req) ''InvId'' '''') 200, ORDERS)"

definition payment_result :: "config \<Rightarrow> request \<Rightarrow> store \<Rightarrow> response \<times> store" where
  "payment_result cfg req ORDERS =
     (let out_sum = multi_get (form req) ''OutSum'' '''';
          inv_id = map_of (form req) ''InvId'';
          signature = multi_get (form req) ''SignatureValue'' '''';
          shp = shp_params (multi_items (form req))
      in case inv_id of
           None \<Rightarrow> (Text ''InvId missing'' 400, ORDERS)
         | Some inv_id \<Rightarrow>
             if inv_id = '''' then (Text ''InvId missing'' 400, ORDERS)
             else if \<not> verify_signature_from_result out_sum inv_id signature
                         (ROBOKASSA_PASSWORD2 cfg) (Some shp)
             then (Text ''Invalid signature'' 400, ORDERS)
             else (Text (''OK'' @ inv_id) 200,
                   update_order_status inv_id ''paid''
                     (Some \<lparr>rk_OutSum = out_sum, rk_shp = shp\<rparr>) ORDERS))"

subsection \<open>Order creation and payment initiation\<close>

datatype exn = ValueError string | InvalidOperation

text \<open>
  \<open>_validate_order_parameters(order_id, amount, description)\<close>: the comparison of a
  NaN amount raises \<open>InvalidOperation\<close>, a non-positive amount and a missing or empty
  description raise \<open>ValueError\<close>. \<open>None\<close> means it returns normally.
\<close>

definition validate_order_parameters :: "string \<Rightarrow> decimal \<Rightarrow> string option \<Rightarrow> exn option" where
  "validate_order_parameters order_id amount description =
     (case decimal_le_zero amount of
        None \<Rightarrow> Some InvalidOperation
      | Some True \<Rightarrow> Some (ValueError ''Amount must be positive'')
      | Some False \<Rightarrow>
          if description = None \<or> description = Some []
          then Some (ValueError ''Description required'')
          else None)"

definition default_description :: string where
  "default_description =
     [CHR 0xD0, CHR 0x97, CHR 0xD0, CHR 0xB0, CHR 0xD0, CHR 0xBA, CHR 0xD0, CHR 0xB0, CHR 0xD0,
      CHR 0xB7]"

definition bad_amount_message :: string where
  "bad_amount_message =
     [CHR 0xD0, CHR 0x9D, CHR 0xD0, CHR 0xB5, CHR 0xD0, CHR 0xBA, CHR 0xD0, CHR 0xBE, CHR 0xD1,
      CHR 0x80, CHR 0xD1, CHR 0x80, CHR 0xD0, CHR 0xB5, CHR 0xD0, CHR 0xBA, CHR 0xD1, CHR 0x82,
      CHR 0xD0, CHR 0xBD, CHR 0xD0, CHR 0xB0, CHR 0xD1, CHR 0x8F, CHR 0x20, CHR 0xD1, CHR 0x81,
      CHR 0xD1, CHR 0x83, CHR 0xD0, CHR 0xBC, CHR 0xD0, CHR 0xBC, CHR 0xD0, CHR 0xB0]"

definition internal_error_message :: string where
  "internal_error_message =
     [CHR 0xD0, CHR 0x92, CHR 0xD0, CHR 0xBD, CHR 0xD1, CHR 0x83, CHR 0xD1, CHR 0x82, CHR 0xD1,
      CHR 0x80, CHR 0xD0, CHR 0xB5, CHR 0xD0, CHR 0xBD, CHR 0xD0, CHR 0xBD, CHR 0xD1, CHR 0x8F,
      CHR 0xD1, CHR 0x8F, CHR 0x20, CHR 0xD0, CHR 0xBE, CHR 0xD1, CHR 0x88, CHR 0xD0, CHR 0xB8,
      CHR 0xD0, CHR 0xB1, CHR 0xD0, CHR 0xBA, CHR 0xD0, CHR 0xB0, CHR 0x20, CHR 0xD1, CHR 0x81,
      CHR 0xD0, CHR 0xB5, CHR 0xD1, CHR 0x80, CHR 0xD0, CHR 0xB2, CHR 0xD0, CHR 0xB5, CHR 0xD1,
      CHR 0x80, CHR 0xD0, CHR 0xB0]"

text \<open>
  The handler of an uncaught exception (\<open>internal_error\<close>); \<open>create_payment\<close>
  reaches it when \<open>Decimal(amount)\<close> is given \<open>None\<close> (a \<open>TypeError\<close>) and when
  the amount is a NaN.
\<close>

definition internal_error :: response where
  "internal_error = FailPage internal_error_message '''' 500"

text \<open>
  \<open>len(ORDERS)\<close> is the length of the list of entries; the keys of a dictionary are
  distinct.
\<close>

definition create_order :: "request \<Rightarrow> store \<Rightarrow> response \<times> store" where
  "create_order req ORDERS =
     (let amount = strip (multi_get (form req) ''amount'' ''0'');
          description = strip (multi_get (form req) ''description'' default_description);
          order_id = (case map_of (form req) ''order_id'' of
                        None \<Rightarrow> str_nat (length ORDERS + 1000)
                      | Some i \<Rightarrow> if i \<noteq> '''' then i else str_nat (length ORDERS + 1000))
      in case Decimal_of_str amount of
           None \<Rightarrow> (Text bad_amount_message 400, ORDERS)
         | Some amount_dec \<Rightarrow>
             (Redirect ''/'' 302,
              dict_set ORDERS order_id
                \<lparr>o_id = order_id, o_amount = Some amount_dec, o_description = Some description,
                 o_status = ''created'', o_shp = Some [(''user'', ''demo'')],
                 o_robokassa = None\<rparr>))"

definition create_payment :: "config \<Rightarrow> request \<Rightarrow> store \<Rightarrow> response \<times> store" where
  "create_payment cfg req ORDERS =
     (case map_of (form req) ''order_id'' of
        None \<Rightarrow> (Text ''order_id required'' 400, ORDERS)
      | Some order_id \<Rightarrow>
          if order_id = '''' then (Text ''order_id required'' 400, ORDERS)
          else
            (case get_order_data ORDERS order_id of
               None \<Rightarrow> (Text ''Order not found'' 404, ORDERS)
             | Some order \<Rightarrow>
                 let amount = o_amount order;
                     description = o_description order;
                     shp = (case o_shp order of None \<Rightarrow> [] | Some d \<Rightarrow> d)
                 in case amount of
                      None \<Rightarrow> (internal_error, ORDERS)
                    | Some amount_dec \<Rightarrow>
                        (case validate_order_parameters order_id amount_dec description of
                           Some (ValueError e) \<Rightarrow> (Text e 400, ORDERS)
                         | Some InvalidOperation \<Rightarrow> (internal_error, ORDERS)
                         | None \<Rightarrow>
                             let url = build_payment_url
                                         (ROBOKASSA_MERCHANT_LOGIN cfg) (ROBOKASSA_PASSWORD1 cfg)
                                         (str_decimal amount_dec) order_id description (Some shp)
                                         (ROBOKASSA_TEST_MODE cfg) None
                             in (Redirect url 302,
                                 update_order_status order_id ''pending'' None ORDERS))))"

subsection \<open>config.py and the verdict of the callback handler\<close>

text \<open>The configuration when no environment variable is set.\<close>

definition Config :: config where
  "Config = \<lparr>ROBOKASSA_MERCHANT_LOGIN = ''robo-demo'', ROBOKASSA_PASSWORD1 = ''password1'',
              ROBOKASSA_PASSWORD2 = ''password2'', ROBOKASSA_TEST_MODE = True\<rparr>"

text \<open>
  Whether \<open>payment_result\<close> gets past both of its checks on a request: the invoice id
  is present and not empty, and \<open>verify_signature_from_result\<close> returns true on the
  fields it reads from the form.
\<close>

definition callback_valid :: "config \<Rightarrow> request \<Rightarrow> bool" where
  "callback_valid cfg req =
     (case map_of (form req) ''InvId'' of
        None \<Rightarrow> False
      | Some inv_id \<Rightarrow>
          inv_id \<noteq> [] \<and>
          verify_signature_from_result (multi_get (form req) ''OutSum'' []) inv_id
            (multi_get (form req) ''SignatureValue'' []) (ROBOKASSA_PASSWORD2 cfg)
            (Some (shp_params (multi_items (form req)))))"

section \<open>The canonical string, in the words of the specification\<close>

text \<open>
  The specification describes the string a signature is computed over: the fields,
  colon-joined, the secret key immediately after them, then the extension pairs in
  ascending order of key, each rendered \<open>Shp_key=value\<close>, present only when there are
  extension pairs. The signing and verifying code below is compared with it.
\<close>

definition canonical_string :: "string list \<Rightarrow> string \<Rightarrow> string pydict \<Rightarrow> string" where
  "canonical_string fs secret ext =
     join '':'' (fs @ [secret] @ map (\<lambda>(k, v). ''Shp_'' @ k @ ''='' @ v) (sort_key fst ext))"

text \<open>
  Two texts are the same up to letter case when they agree once every letter
  \<open>a\<close> to \<open>z\<close> is replaced by its capital.
\<close>

definition same_ignoring_case :: "string \<Rightarrow> string \<Rightarrow> bool" where
  "same_ignoring_case a b = (map ascii_upper (asc a) = map ascii_upper (asc b))"

section \<open>Example data\<close>

text \<open>An order that has been paid, used in the examples below.\<close>

definition paid_order :: order where
  "paid_order = \<lparr>o_id = ''1001'', o_amount = Some (Finite False 9990 (- 2)),
                 o_description = Some ''Test order'', o_status = ''paid'',
                 o_shp = Some [(''user'', ''42'')], o_robokassa = None\<rparr>"

section \<open>Canonical strings\<close>

lemma sort_key_fst_unique:
  assumes "distinct (map fst a)" and "distinct (map fst b)" and "set a = set b"
  shows "sort_key fst a = sort_key fst b"
proof (rule map_sorted_distinct_set_unique [where f = fst])
  have "inj_on fst (set a)" "inj_on fst (set b)"
    using assms(1,2) by (simp_all add: distinct_map)
  then show "inj_on fst (set (sort_key fst a) \<union> set (sort_key fst b))"
    using assms(3) by simp
  show "distinct (map fst (sort_key fst a))" "distinct (map fst (sort_key fst b))"
    using assms(1,2) by (simp_all add: distinct_map)
  show "set (sort_key fst a) = set (sort_key fst b)"
    using assms(3) by simp
qed simp_all

lemma format_shp_part_order_free:
  assumes "distinct (map fst a)" and "distinct (map fst b)" and "set a = set b"
  shows "format_shp_part a = format_shp_part b"
proof -
  have "a = [] \<longleftrightarrow> b = []"
    using assms(3) by (metis set_empty)
  then show ?thesis
    by (simp add: format_shp_part_def sort_key_fst_unique [OF assms])
qed

lemma join_Cons: "ys \<noteq> [] \<Longrightarrow> join sep (x # ys) = x @ sep @ join sep ys"
  by (cases ys) simp_all

lemma join_nonempty:
  "xs \<noteq> [] \<Longrightarrow> \<forall>x\<in>set xs. x \<noteq> [] \<Longrightarrow> join sep xs \<noteq> []"
  by (induction sep xs rule: join.induct) simp_all

lemma sort_key_Nil_iff: "sort_key f xs = [] \<longleftrightarrow> xs = []"
  by (metis set_empty set_sort)

lemma format_shp_part_empty_iff: "format_shp_part shp = '''' \<longleftrightarrow> shp = []"
proof (cases "shp = []")
  case True
  then show ?thesis by (simp add: format_shp_part_def)
next
  case False
  then have "join '':'' (map (\<lambda>(k, v). ''Shp_'' @ k @ ''='' @ v) (sort_key fst shp)) \<noteq> []"
    by (intro join_nonempty) (auto simp: sort_key_Nil_iff)
  with False show ?thesis by (simp add: format_shp_part_def)
qed

lemma canonical_string_Cons:
  "canonical_string (f # fs) secret ext = f @ '':'' @ canonical_string fs secret ext"
  by (simp add: canonical_string_def join_Cons)

lemma canonical_string_Nil:
  "canonical_string [] secret ext =
     (if format_shp_part ext \<noteq> '''' then secret @ '':'' @ format_shp_part ext else secret)"
proof (cases "ext = []")
  case True
  then show ?thesis by (simp add: canonical_string_def format_shp_part_def)
next
  case False
  then have "format_shp_part ext \<noteq> ''''"
    by (simp add: format_shp_part_empty_iff)
  moreover have "canonical_string [] secret ext = secret @ '':'' @ format_shp_part ext"
    using False by (simp add: canonical_string_def format_shp_part_def join_Cons sort_key_Nil_iff)
  ultimately show ?thesis by simp
qed

lemma canonical_string_two:
  "canonical_string [a, b] secret ext =
     (if format_shp_part ext \<noteq> '''' then a @ '':'' @ b @ '':'' @ secret @ '':'' @ format_shp_part ext
      else a @ '':'' @ b @ '':'' @ secret)"
  by (simp add: canonical_string_Cons canonical_string_Nil)

lemma canonical_string_three:
  "canonical_string [m, a, b] secret ext =
     (if format_shp_part ext \<noteq> '''' then m @ '':'' @ a @ '':'' @ b @ '':'' @ secret @ '':'' @ format_shp_part ext
      else m @ '':'' @ a @ '':'' @ b @ '':'' @ secret)"
  by (simp add: canonical_string_Cons canonical_string_Nil)

section \<open>Upper-casing and digests\<close>

lemma decode_utf8_ascii: "\<forall>b\<in>set bs. b < 128 \<Longrightarrow> decode_utf8 bs = bs"
  by (induction bs) (simp_all add: utf8_tail_def utf8_cp_def)

lemma str_of_upper_cp_ascii:
  "\<forall>b\<in>set bs. b < 128 \<Longrightarrow>
     str_of (concat (map upper_cp bs)) = map (\<lambda>b. char_of (ascii_upper b)) bs"
proof (induction bs)
  case Nil
  show ?case by (simp add: str_of_def)
next
  case (Cons b bs)
  then have b: "b < 128" by simp
  then have "ascii_upper b < 128" by (auto simp: ascii_upper_def)
  then have "utf8_bytes (ascii_upper b) = [ascii_upper b]" by (simp add: utf8_bytes_def)
  moreover have "upper_cp b = [ascii_upper b]" using b by (simp add: upper_cp_def ascii_upper_def)
  ultimately show ?case using Cons by (simp add: str_of_def)
qed

lemma upper_ascii:
  assumes "\<forall>c\<in>set s. (of_char c :: nat) < 128"
  shows "upper s = map (\<lambda>c. char_of (ascii_upper (of_char c))) s"
proof -
  have a: "\<forall>b\<in>set (map of_char s). (b :: nat) < 128" using assms by simp
  have "codepoints s = map of_char s"
    unfolding codepoints_def using a by (rule decode_utf8_ascii)
  then show ?thesis
    using str_of_upper_cp_ascii [OF a] by (simp add: upper_def comp_def)
qed

lemma hex_digit_lower: "n < 16 \<Longrightarrow> hex_digit n \<in> set ''0123456789abcdef''"
proof -
  assume "n < 16"
  then have "n < length ''0123456789abcdef''" by simp
  then show ?thesis unfolding hex_digit_def by (rule nth_mem)
qed

lemma byte_nibbles: "unat (b :: byte) div 16 < 16" "unat b mod 16 < 16"
proof -
  have "unat b < 2 ^ 8" using unsigned_less [of b] by simp
  then show "unat b div 16 < 16" by simp
  show "unat b mod 16 < 16" by simp
qed

lemma hexdigest_chars: "c \<in> set (hexdigest bs) \<Longrightarrow> c \<in> set ''0123456789abcdef''"
proof (induction bs)
  case Nil
  then show ?case by (simp add: hexdigest_def)
next
  case (Cons b bs)
  from Cons.prems consider "c = hex_digit (unat b div 16)" | "c = hex_digit (unat b mod 16)"
    | "c \<in> set (hexdigest bs)"
    by (auto simp: hexdigest_def)
  then show ?case
  proof cases
    case 1
    then show ?thesis using hex_digit_lower [OF byte_nibbles(1)] by simp
  next
    case 2
    then show ?thesis using hex_digit_lower [OF byte_nibbles(2)] by simp
  next
    case 3
    then show ?thesis by (rule Cons.IH)
  qed
qed

lemma hex_lower_upper:
  assumes "c \<in> set ''0123456789abcdef''"
  shows "(of_char c :: nat) < 128"
    and "char_of (ascii_upper (of_char c)) \<in> set ''0123456789ABCDEF''"
  using assms by (auto simp: ascii_upper_def char_of_eq_iff)

lemma hex_upper_fixed:
  assumes "c \<in> set ''0123456789ABCDEF''"
  shows "(of_char c :: nat) < 128" and "char_of (ascii_upper (of_char c)) = c"
  using assms by (auto simp: ascii_upper_def char_of_eq_iff)

lemma md5_upper_eq:
  "md5_upper s = map (\<lambda>c. char_of (ascii_upper (of_char c))) (hexdigest (md5 (encode_utf8 s)))"
  unfolding md5_upper_def
proof (rule upper_ascii, rule ballI)
  fix c assume "c \<in> set (hexdigest (md5 (encode_utf8 s)))"
  then have "c \<in> set ''0123456789abcdef''" by (rule hexdigest_chars)
  then show "(of_char c :: nat) < 128" by (rule hex_lower_upper(1))
qed

lemma md5_upper_chars: "c \<in> set (md5_upper s) \<Longrightarrow> c \<in> set ''0123456789ABCDEF''"
proof -
  assume "c \<in> set (md5_upper s)"
  then obtain d where d: "d \<in> set (hexdigest (md5 (encode_utf8 s)))"
    and c: "c = char_of (ascii_upper (of_char d))"
    unfolding md5_upper_eq by (metis (no_types, lifting) imageE list.set_map)
  from d have "d \<in> set ''0123456789abcdef''" by (rule hexdigest_chars)
  then show ?thesis unfolding c by (rule hex_lower_upper(2))
qed

lemma upper_hex_upper:
  assumes "\<forall>c\<in>set s. c \<in> set ''0123456789ABCDEF''"
  shows "upper s = s"
proof -
  have "upper s = map (\<lambda>c. char_of (ascii_upper (of_char c))) s"
  proof (rule upper_ascii, rule ballI)
    fix c assume "c \<in> set s"
    with assms have "c \<in> set ''0123456789ABCDEF''" by (rule bspec)
    then show "(of_char c :: nat) < 128" by (rule hex_upper_fixed(1))
  qed
  also have "\<dots> = map (\<lambda>c. c) s"
  proof (rule map_cong [OF refl])
    fix c assume "c \<in> set s"
    with assms have "c \<in> set ''0123456789ABCDEF''" by (rule bspec)
    then show "char_of (ascii_upper (of_char c)) = c" by (rule hex_upper_fixed(2))
  qed
  finally show ?thesis by simp
qed

lemma upper_md5_upper: "upper (md5_upper s) = md5_upper s"
proof (rule upper_hex_upper, rule ballI)
  fix c assume "c \<in> set (md5_upper s)"
  then show "c \<in> set ''0123456789ABCDEF''" by (rule md5_upper_chars)
qed

lemma length_md5: "length (md5 m) = 16"
  by (simp add: md5_def le_bytes_def split: prod.split)

lemma length_hexdigest: "length (hexdigest bs) = 2 * length bs"
  by (induction bs) (simp_all add: hexdigest_def)

lemma length_md5_upper: "length (md5_upper s) = 32"
  by (simp add: md5_upper_eq length_hexdigest length_md5)

section \<open>MD5 on concrete texts\<close>

lemma md5_step_eval:
  "md5_step M (a, b, c, d) i =
     (d, take_bit 32 (b + rotl32 (md5_S ! i)
           (take_bit 32 (a + (if i < 16 then (b AND c) OR (NOT b AND d)
                               else if i < 32 then (d AND b) OR (NOT d AND c)
                               else if i < 48 then b XOR c XOR d
                               else c XOR (b OR NOT d))
                          + md5_K ! i
                          + M ! (if i < 16 then i
                                 else if i < 32 then (5 * i + 1) mod 16
                                 else if i < 48 then (3 * i + 5) mod 16
                                 else (7 * i) mod 16)))), b, c)"
  by (simp add: md5_step_def Let_def take_bit_word_eq_self)

lemma replicate_numeral_eval: "replicate (numeral k) x = x # replicate (pred_numeral k) x"
  by (simp add: numeral_eq_Suc)

lemmas md5_eval = md5_upper_eq md5_def md5_pad_def md5_blocks.simps md5_block_def md5_step_eval
  md5_K_def md5_S_def rotl32_def le_bytes_def hexdigest_def hex_digit_def encode_utf8_def
  ascii_upper_def upt_conv_Cons replicate_numeral_eval Let_def char_of_eq_iff

text \<open>The first two test vectors of RFC 1321, upper-cased.\<close>

lemma md5_upper_empty: "md5_upper '''' = ''D41D8CD98F00B204E9800998ECF8427E''"
  by (simp add: md5_eval)

lemma md5_upper_abc: "md5_upper ''abc'' = ''900150983CD24FB0D6963F7D28E17F72''"
  by (simp add: md5_eval)

lemma md5_builder_plain:
  "md5_upper ''robo-demo:99.90:1001:password1'' = ''11E40777E857B33EC1E85BD17543942D''"
  by (simp add: md5_eval)

lemma md5_builder_shp:
  "md5_upper ''robo-demo:99.90:1001:password1:Shp_user=42'' = ''4CD341C89B12F5BE931CC0D7C0C9CA0C''"
  by (simp add: md5_eval)

lemma md5_result_plain:
  "md5_upper ''99.90:1001:password2'' = ''D9B3B7C056EB12CA8EED99D439FE3BF8''"
  by (simp add: md5_eval)

lemma md5_result_password1:
  "md5_upper ''99.90:1001:password1'' = ''6C645EE98CBEDF5D772EF2F7AA13A7F0''"
  by (simp add: md5_eval)

lemma md5_result_1000:
  "md5_upper ''99.90:1000:password2'' = ''FEE1D0AC1E0CD26948FF2C219C45E597''"
  by (simp add: md5_eval)

section \<open>The redirect-return handler leaves the store alone\<close>

text \<open>
  Claim C2. The redirect-return handler \<open>payment_success\<close> never mutates an order: for
  every request, whether its signature verifies or not and whether the order id is known
  or not, the store after handling is the store before, so every order keeps its status.
\<close>

theorem payment_success_store_unchanged:
  "snd (payment_success cfg req ORDERS) = ORDERS"
  by (simp add: payment_success_def Let_def split: option.split)

section \<open>Signatures\<close>

lemma map_of_dict_set: "map_of (dict_set d k v) = (map_of d)(k \<mapsto> v)"
  by (simp add: dict_set_def update_conv')

lemma map_of_shp_fold:
  "(\<And>k. f k \<noteq> key) \<Longrightarrow>
     map_of (foldl (\<lambda>acc (k, v). dict_set acc (f k) v) params shp) key = map_of params key"
proof (induction shp arbitrary: params)
  case Nil
  show ?case by simp
next
  case (Cons p shp)
  obtain k v where p: "p = (k, v)" by (cases p)
  have "f k \<noteq> key" by (rule Cons.prems)
  then show ?case
    by (simp add: p Cons.IH [OF Cons.prems] map_of_dict_set)
qed

lemma build_signature_canonical:
  "build_signature m p1 out_sum inv_id shp
     = md5_upper (canonical_string [m, out_sum, inv_id] p1 (or_empty shp))"
  by (simp add: build_signature_def Let_def canonical_string_three)

lemma build_payment_params_signature:
  "map_of (build_payment_params m p1 out_sum inv_id d shp t None) ''SignatureValue''
     = Some (build_signature m p1 out_sum inv_id shp)"
  by (simp add: build_payment_params_def Let_def map_of_shp_fold map_of_dict_set
        split: option.split)

text \<open>
  Claim C3. \<open>build_payment_url\<close> puts into the \<open>SignatureValue\<close> parameter the
  upper-case hexadecimal MD5 of the colon-joined string
  \<open>MerchantLogin:OutSum:InvId:Password1\<close>, followed by the extension pairs as
  \<open>:Shp_key=value\<close> in ascending key order when there are any. For the merchant
  \<open>robo-demo\<close>, password \<open>password1\<close>, amount \<open>99.90\<close> and invoice \<open>1001\<close> the
  signed string is \<open>robo-demo:99.90:1001:password1\<close> without extensions and
  \<open>robo-demo:99.90:1001:password1:Shp_user=42\<close> with the extension \<open>user = 42\<close>.
\<close>

theorem build_payment_url_signature:
  "map_of (build_payment_params m p1 out_sum inv_id d shp t None) ''SignatureValue''
     = Some (md5_upper (canonical_string [m, out_sum, inv_id] p1 (or_empty shp)))
   \<and> canonical_string [m, out_sum, inv_id] p1 [] = m @ '':'' @ out_sum @ '':'' @ inv_id @ '':'' @ p1
   \<and> map_of (build_payment_params ''robo-demo'' ''password1'' ''99.90'' ''1001'' d None t None)
         ''SignatureValue''
     = Some (md5_upper ''robo-demo:99.90:1001:password1'')
   \<and> map_of (build_payment_params ''robo-demo'' ''password1'' ''99.90'' ''1001'' d
           (Some [(''user'', ''42'')]) t None) ''SignatureValue''
     = Some (md5_upper ''robo-demo:99.90:1001:password1:Shp_user=42'')"
proof -
  have general: "\<And>m p1 out_sum inv_id shp.
      map_of (build_payment_params m p1 out_sum inv_id d shp t None) ''SignatureValue''
        = Some (md5_upper (canonical_string [m, out_sum, inv_id] p1 (or_empty shp)))"
    by (simp add: build_payment_params_signature build_signature_canonical)
  have plain: "canonical_string [m, out_sum, inv_id] p1 []
      = m @ '':'' @ out_sum @ '':'' @ inv_id @ '':'' @ p1" for m out_sum inv_id p1
    by (simp add: canonical_string_def)
  have ext: "canonical_string [''robo-demo'', ''99.90'', ''1001''] ''password1'' [(''user'', ''42'')]
      = ''robo-demo:99.90:1001:password1:Shp_user=42''"
    by (simp add: canonical_string_def)
  show ?thesis
    using general [of m p1 out_sum inv_id shp]
      general [of "''robo-demo''" "''password1''" "''99.90''" "''1001''" None]
      general [of "''robo-demo''" "''password1''" "''99.90''" "''1001''" "Some [(''user'', ''42'')]"]
      plain [of m out_sum inv_id p1]
      plain [of "''robo-demo''" "''99.90''" "''1001''" "''password1''"] ext
    by (simp add: or_empty_def)
qed

lemma ascii_upper_ascii: "ascii_upper n < 128 \<Longrightarrow> n < 128"
  by (simp add: ascii_upper_def split: if_splits)

lemma same_ignoring_case_upper:
  assumes "same_ignoring_case cand d" and "\<forall>c\<in>set d. c \<in> set ''0123456789ABCDEF''"
  shows "upper cand = d"
proof -
  have eq: "map (\<lambda>c. ascii_upper (of_char c)) cand = map (\<lambda>c. ascii_upper (of_char c)) d"
    using assms(1) by (simp add: same_ignoring_case_def asc_def comp_def)
  have ascii: "(of_char c :: nat) < 128" if "c \<in> set cand" for c
  proof -
    have "ascii_upper (of_char c) \<in> set (map (\<lambda>c. ascii_upper (of_char c)) cand)"
      using that by simp
    then have "ascii_upper (of_char c) \<in> set (map (\<lambda>c. ascii_upper (of_char c)) d)"
      by (simp only: eq)
    then obtain x where x: "x \<in> set d" and cx: "ascii_upper (of_char c) = ascii_upper (of_char x)"
      by auto
    from assms(2) x have hx: "x \<in> set ''0123456789ABCDEF''" by (rule bspec)
    then have "ascii_upper (of_char x) = (of_char x :: nat)" by (auto simp: ascii_upper_def)
    moreover have "(of_char x :: nat) < 128" using hx by (rule hex_upper_fixed(1))
    ultimately have "ascii_upper (of_char x) < 128" by simp
    then show ?thesis unfolding cx [symmetric] by (rule ascii_upper_ascii)
  qed
  have "upper cand = map (\<lambda>c. char_of (ascii_upper (of_char c))) cand"
    using ascii by (intro upper_ascii) simp
  also have "\<dots> = map char_of (map (\<lambda>c. ascii_upper (of_char c)) cand)" by simp
  also have "\<dots> = map char_of (map (\<lambda>c. ascii_upper (of_char c)) d)" by (simp only: eq)
  also have "\<dots> = map (\<lambda>c. char_of (ascii_upper (of_char c))) d" by simp
  also have "\<dots> = map (\<lambda>c. c) d"
  proof (rule map_cong [OF refl])
    fix c assume "c \<in> set d"
    with assms(2) have "c \<in> set ''0123456789ABCDEF''" by (rule bspec)
    then show "char_of (ascii_upper (of_char c)) = c" by (rule hex_upper_fixed(2))
  qed
  finally show ?thesis by simp
qed

lemma verify_signature_from_result_eq:
  "verify_signature_from_result out_sum inv_id cand password2 shp
     = (upper cand = md5_upper (canonical_string [out_sum, inv_id] password2 (or_empty shp)))"
  by (auto simp add: verify_signature_from_result_def Let_def canonical_string_two)

lemma canonical_result_plain: "canonical_string [''99.90'', i] ''password2'' [] = ''99.90:'' @ i @ '':password2''"
  by (simp add: canonical_string_def)

text \<open>
  Claim C4. \<open>verify_signature_from_result\<close> recomputes the digest over
  \<open>OutSum:InvId:Password2\<close> (no merchant identifier) with the extension pairs in
  ascending key order and compares it with the upper-cased candidate: it returns true
  exactly when \<open>candidate.upper()\<close> is the recomputed upper-case MD5 digest. So every
  candidate that differs from the digest only in the case of its letters is accepted.
  For the amount \<open>99.90\<close>, invoice \<open>1001\<close> and password \<open>password2\<close> the digest is
  \<open>D9B3B7C056EB12CA8EED99D439FE3BF8\<close>; it is accepted in upper case, in lower case
  and in mixed case, and refused when its last digit is changed. For invoice \<open>1000\<close>
  the digest \<open>FEE1D0AC1E0CD26948FF2C219C45E597\<close> is also accepted with its \<open>FF\<close> written
  as the single ligature U+FB00, which \<open>upper()\<close> turns into \<open>FF\<close>.
\<close>

theorem verify_signature_from_result_iff:
  "verify_signature_from_result out_sum inv_id cand password2 shp
     = (upper cand = md5_upper (canonical_string [out_sum, inv_id] password2 (or_empty shp)))
   \<and> (same_ignoring_case cand
         (md5_upper (canonical_string [out_sum, inv_id] password2 (or_empty shp)))
       \<longrightarrow> verify_signature_from_result out_sum inv_id cand password2 shp)
   \<and> verify_signature_from_result ''99.90'' ''1001'' ''D9B3B7C056EB12CA8EED99D439FE3BF8''
         ''password2'' None
   \<and> verify_signature_from_result ''99.90'' ''1001'' ''d9b3b7c056eb12ca8eed99d439fe3bf8''
         ''password2'' None
   \<and> verify_signature_from_result ''99.90'' ''1001'' ''D9b3B7c056Eb12cA8eEd99D439fE3bF8''
         ''password2'' None
   \<and> \<not> verify_signature_from_result ''99.90'' ''1001'' ''D9B3B7C056EB12CA8EED99D439FE3BF9''
         ''password2'' None
   \<and> verify_signature_from_result ''99.90'' ''1000''
         (''FEE1D0AC1E0CD26948'' @ [CHR 0xEF, CHR 0xAC, CHR 0x80] @ ''2C219C45E597'')
         ''password2'' None"
proof (intro conjI impI)
  show "verify_signature_from_result out_sum inv_id cand password2 shp
     = (upper cand = md5_upper (canonical_string [out_sum, inv_id] password2 (or_empty shp)))"
    by (rule verify_signature_from_result_eq)
next
  assume "same_ignoring_case cand
            (md5_upper (canonical_string [out_sum, inv_id] password2 (or_empty shp)))"
  then have "upper cand = md5_upper (canonical_string [out_sum, inv_id] password2 (or_empty shp))"
    by (rule same_ignoring_case_upper) (auto dest: md5_upper_chars)
  then show "verify_signature_from_result out_sum inv_id cand password2 shp"
    by (simp only: verify_signature_from_result_eq)
next
  have up: "upper s = map (\<lambda>c. char_of (ascii_upper (of_char c))) s"
    if "\<forall>c\<in>set s. (of_char c :: nat) < 128" for s
    using that by (rule upper_ascii)
  show "verify_signature_from_result ''99.90'' ''1001'' ''D9B3B7C056EB12CA8EED99D439FE3BF8''
         ''password2'' None"
    by (simp add: verify_signature_from_result_eq or_empty_def canonical_result_plain
          md5_result_plain up ascii_upper_def char_of_eq_iff)
  show "verify_signature_from_result ''99.90'' ''1001'' ''d9b3b7c056eb12ca8eed99d439fe3bf8''
         ''password2'' None"
    by (simp add: verify_signature_from_result_eq or_empty_def canonical_result_plain
          md5_result_plain up ascii_upper_def char_of_eq_iff)
  show "verify_signature_from_result ''99.90'' ''1001'' ''D9b3B7c056Eb12cA8eEd99D439fE3bF8''
         ''password2'' None"
    by (simp add: verify_signature_from_result_eq or_empty_def canonical_result_plain
          md5_result_plain up ascii_upper_def char_of_eq_iff)
  show "\<not> verify_signature_from_result ''99.90'' ''1001'' ''D9B3B7C056EB12CA8EED99D439FE3BF9''
         ''password2'' None"
    by (simp add: verify_signature_from_result_eq or_empty_def canonical_result_plain
          md5_result_plain up ascii_upper_def char_of_eq_iff)
  show "verify_signature_from_result ''99.90'' ''1000''
         (''FEE1D0AC1E0CD26948'' @ [CHR 0xEF, CHR 0xAC, CHR 0x80] @ ''2C219C45E597'')
         ''password2'' None"
    by (simp add: verify_signature_from_result_eq or_empty_def canonical_result_plain
          md5_result_1000 upper_def codepoints_def utf8_tail_def utf8_cp_def upper_cp_def
          unicode_upper_def unicode_upper_p251_def str_of_def utf8_bytes_def char_of_eq_iff)
qed

theorem verify_signature_from_result_iff_witness:
  "same_ignoring_case ''d9b3b7c056eb12ca8eed99d439fe3bf8''
     (md5_upper (canonical_string [''99.90'', ''1001''] ''password2'' (or_empty None)))
   \<and> verify_signature_from_result ''99.90'' ''1001'' ''d9b3b7c056eb12ca8eed99d439fe3bf8''
         ''password2'' None"
proof -
  have s: "same_ignoring_case ''d9b3b7c056eb12ca8eed99d439fe3bf8''
     (md5_upper (canonical_string [''99.90'', ''1001''] ''password2'' (or_empty None)))"
    by (simp add: or_empty_def canonical_result_plain md5_result_plain same_ignoring_case_def
          asc_def ascii_upper_def)
  with verify_signature_from_result_iff
    [of "''99.90''" "''1001''" "''d9b3b7c056eb12ca8eed99d439fe3bf8''" "''password2''" None]
  show ?thesis by blast
qed

text \<open>
  Claim C5. The extension string depends only on the set of key/value pairs of the
  extension dictionary, not on the order in which they were inserted: two dictionaries
  (lists of pairs with distinct keys) with the same pairs give the same
  \<open>_format_shp_part\<close> string, hence the same signature in \<open>build_payment_url\<close> and
  the same verdict in \<open>verify_signature_from_result\<close>.
\<close>

theorem shp_order_independence:
  assumes "distinct (map fst a)" and "distinct (map fst b)" and "set a = set b"
  shows "format_shp_part a = format_shp_part b
     \<and> map_of (build_payment_params m p1 out_sum inv_id d (Some a) t None) ''SignatureValue''
       = map_of (build_payment_params m p1 out_sum inv_id d (Some b) t None) ''SignatureValue''
     \<and> verify_signature_from_result out_sum inv_id cand p2 (Some a)
       = verify_signature_from_result out_sum inv_id cand p2 (Some b)"
proof -
  have eq: "format_shp_part a = format_shp_part b"
    using assms by (rule format_shp_part_order_free)
  have "build_signature m p1 out_sum inv_id (Some a) = build_signature m p1 out_sum inv_id (Some b)"
    by (simp add: build_signature_def or_empty_def eq)
  moreover have "verify_signature_from_result out_sum inv_id cand p2 (Some a)
      = verify_signature_from_result out_sum inv_id cand p2 (Some b)"
    by (simp add: verify_signature_from_result_def or_empty_def eq)
  ultimately show ?thesis
    by (simp add: eq build_payment_params_signature)
qed

theorem shp_order_independence_witness:
  "format_shp_part [(''user'', ''42''), (''cart'', ''7'')]
     = format_shp_part [(''cart'', ''7''), (''user'', ''42'')]
   \<and> map_of (build_payment_params ''robo-demo'' ''password1'' ''99.90'' ''1001'' None
         (Some [(''user'', ''42''), (''cart'', ''7'')]) True None) ''SignatureValue''
     = map_of (build_payment_params ''robo-demo'' ''password1'' ''99.90'' ''1001'' None
         (Some [(''cart'', ''7''), (''user'', ''42'')]) True None) ''SignatureValue''
   \<and> verify_signature_from_result ''99.90'' ''1001'' ''00'' ''password2''
         (Some [(''user'', ''42''), (''cart'', ''7'')])
     = verify_signature_from_result ''99.90'' ''1001'' ''00'' ''password2''
         (Some [(''cart'', ''7''), (''user'', ''42'')])"
  by (rule shp_order_independence) auto

section \<open>Round trip through the redirect-return handler\<close>

lemma dict_set_fresh: "k \<notin> fst ` set d \<Longrightarrow> dict_set d k v = d @ [(k, v)]"
  by (induction d) (auto simp: dict_set_def)

lemma foldl_dict_set_fresh:
  assumes "inj f" and "distinct (map fst shp)"
    and "\<forall>k \<in> fst ` set shp. f k \<notin> fst ` set params"
  shows "foldl (\<lambda>acc (k, v). dict_set acc (f k) v) params shp
           = params @ map (\<lambda>(k, v). (f k, v)) shp"
  using assms(2,3)
proof (induction shp arbitrary: params)
  case Nil
  show ?case by simp
next
  case (Cons p shp)
  obtain k v where p: "p = (k, v)" by (cases p)
  have fresh: "f k \<notin> fst ` set params" using Cons.prems(2) by (simp add: p)
  have "\<forall>k' \<in> fst ` set shp. f k' \<notin> fst ` set (params @ [(f k, v)])"
  proof
    fix k' assume k': "k' \<in> fst ` set shp"
    then have "k' \<noteq> k" using Cons.prems(1) by (auto simp: p)
    then have "f k' \<noteq> f k" using assms(1) by (auto dest: injD)
    moreover have "f k' \<notin> fst ` set params" using Cons.prems(2) k' by auto
    ultimately show "f k' \<notin> fst ` set (params @ [(f k, v)])" by auto
  qed
  moreover have "distinct (map fst shp)" using Cons.prems(1) by simp
  ultimately have "foldl (\<lambda>acc (k, v). dict_set acc (f k) v) (params @ [(f k, v)]) shp
      = (params @ [(f k, v)]) @ map (\<lambda>(k, v). (f k, v)) shp"
    by (rule Cons.IH [rotated])
  then show ?case by (simp add: p dict_set_fresh [OF fresh])
qed

lemma multi_items_foldl:
  "distinct (map fst (acc @ xs)) \<Longrightarrow>
     foldl (\<lambda>acc (k, v). if k \<in> fst ` set acc then acc else acc @ [(k, v)]) acc xs = acc @ xs"
proof (induction xs arbitrary: acc)
  case Nil
  show ?case by simp
next
  case (Cons p xs)
  obtain k v where p: "p = (k, v)" by (cases p)
  have "k \<notin> fst ` set acc" using Cons.prems by (auto simp: p)
  moreover have "distinct (map fst ((acc @ [(k, v)]) @ xs))" using Cons.prems by (simp add: p)
  ultimately show ?case using Cons.IH [of "acc @ [(k, v)]"] by (simp add: p)
qed

lemma multi_items_distinct: "distinct (map fst xs) \<Longrightarrow> multi_items xs = xs"
  using multi_items_foldl [of "[]" xs] by (simp add: multi_items_def)

lemma shp_params_foldl_other:
  "\<forall>k \<in> fst ` set xs. \<not> startswith k ''Shp_'' \<Longrightarrow>
     foldl (\<lambda>d (k, v). if startswith k ''Shp_'' then dict_set d (drop 4 k) v else d) d xs = d"
  by (induction xs arbitrary: d) auto

lemma shp_params_foldl_shp:
  "distinct (map fst (d @ shp)) \<Longrightarrow>
     foldl (\<lambda>d (k, v). if startswith k ''Shp_'' then dict_set d (drop 4 k) v else d) d
       (map (\<lambda>(k, v). (''Shp_'' @ k, v)) shp) = d @ shp"
proof (induction shp arbitrary: d)
  case Nil
  show ?case by simp
next
  case (Cons p shp)
  obtain k v where p: "p = (k, v)" by (cases p)
  have fresh: "k \<notin> fst ` set d" using Cons.prems by (auto simp: p)
  have "distinct (map fst ((d @ [(k, v)]) @ shp))" using Cons.prems by (simp add: p)
  then show ?case using Cons.IH [of "d @ [(k, v)]"]
    by (simp add: p startswith_def dict_set_fresh [OF fresh])
qed

lemma build_payment_params_shape:
  assumes "distinct (map fst (or_empty shp))"
  shows "\<exists>pre. build_payment_params m p1 out_sum inv_id d shp t None
                 = pre @ map (\<lambda>(k, v). (''Shp_'' @ k, v)) (or_empty shp)
           \<and> distinct (map fst pre) \<and> (\<forall>k \<in> fst ` set pre. \<not> startswith k ''Shp_'')
           \<and> map_of pre ''OutSum'' = Some out_sum \<and> map_of pre ''InvId'' = Some inv_id
           \<and> map_of pre ''SignatureValue'' = Some (build_signature m p1 out_sum inv_id shp)"
proof -
  define base where "base = [(''MerchantLogin'', m), (''OutSum'', out_sum), (''InvId'', inv_id),
                            (''SignatureValue'', build_signature m p1 out_sum inv_id shp)]"
  define withd where "withd = (case d of None \<Rightarrow> base
                     | Some x \<Rightarrow> if x \<noteq> '''' then dict_set base ''Description'' x else base)"
  define pre where "pre = (if t then dict_set withd ''IsTest'' ''1'' else withd)"
  have keys: "fst ` set pre \<subseteq> {''MerchantLogin'', ''OutSum'', ''InvId'', ''SignatureValue'',
                               ''Description'', ''IsTest''}"
    by (auto simp: pre_def withd_def base_def dict_set_def split: option.splits if_splits)
  have d: "distinct (map fst pre)"
    by (simp add: pre_def withd_def base_def dict_set_def split: option.splits)
  have m: "map_of pre ''OutSum'' = Some out_sum" "map_of pre ''InvId'' = Some inv_id"
      "map_of pre ''SignatureValue'' = Some (build_signature m p1 out_sum inv_id shp)"
    by (simp_all add: pre_def withd_def base_def dict_set_def split: option.splits)
  have nshp: "\<forall>k \<in> fst ` set pre. \<not> startswith k ''Shp_''"
    using keys by (auto simp: startswith_def)
  have inj: "inj (\<lambda>k. ''Shp_'' @ k)" by (simp add: inj_on_def)
  have fresh: "\<forall>k \<in> fst ` set (or_empty shp). ''Shp_'' @ k \<notin> fst ` set pre"
    using keys by auto
  have "build_payment_params m p1 out_sum inv_id d shp t None
      = foldl (\<lambda>acc (k, v). dict_set acc (''Shp_'' @ k) v) pre (or_empty shp)"
    by (simp add: build_payment_params_def Let_def pre_def withd_def base_def
          split: option.splits)
  also have "\<dots> = pre @ map (\<lambda>(k, v). (''Shp_'' @ k, v)) (or_empty shp)"
    using inj assms fresh by (rule foldl_dict_set_fresh)
  finally show ?thesis using d m nshp by blast
qed

lemma payment_success_accept:
  assumes "multi_get a ''OutSum'' '''' = out_sum" and "multi_get a ''InvId'' '''' = inv_id"
    and "multi_get a ''SignatureValue'' '''' = sig" and "shp_params (multi_items a) = ext"
    and "upper sig = md5_upper (canonical_string
           [ROBOKASSA_MERCHANT_LOGIN cfg, out_sum, inv_id] (ROBOKASSA_PASSWORD1 cfg) ext)"
  shows "payment_success cfg \<lparr>args = a, form = fm\<rparr> ORDERS
         = (SuccessPage inv_id
              (case get_order_data ORDERS inv_id of
                 Some order \<Rightarrow> Known order | None \<Rightarrow> Unknown inv_id out_sum), ORDERS)"
  using assms(5)
  by (simp add: payment_success_def Let_def assms(1-4) canonical_string_three
        split: option.split)

text \<open>
  Claim C6. Round trip: for a merchant login, first password, amount, invoice id and
  extension dictionary (distinct keys), the query parameters that \<open>build_payment_url\<close>
  puts into the URL, handed to the redirect-return handler configured with the same
  merchant login and first password, pass its signature check: the handler answers with
  the success page, not with the 400 failure page. The parameters are taken as the
  dictionary \<open>urlencode\<close> renders, before quoting.
\<close>

theorem build_payment_url_round_trip:
  assumes "distinct (map fst (or_empty shp))"
  shows "payment_success cfg
           \<lparr>args = build_payment_params (ROBOKASSA_MERCHANT_LOGIN cfg) (ROBOKASSA_PASSWORD1 cfg)
                     out_sum inv_id d shp t None,
            form = fm\<rparr> ORDERS
         = (SuccessPage inv_id
              (case get_order_data ORDERS inv_id of
                 Some order \<Rightarrow> Known order | None \<Rightarrow> Unknown inv_id out_sum), ORDERS)"
proof -
  let ?m = "ROBOKASSA_MERCHANT_LOGIN cfg" and ?p = "ROBOKASSA_PASSWORD1 cfg"
  let ?sig = "build_signature ?m ?p out_sum inv_id shp"
  define shpm where "shpm = map (\<lambda>(k, v). (''Shp_'' @ k, v)) (or_empty shp)"
  obtain pre where params: "build_payment_params ?m ?p out_sum inv_id d shp t None = pre @ shpm"
    and d: "distinct (map fst pre)" and nshp: "\<forall>k \<in> fst ` set pre. \<not> startswith k ''Shp_''"
    and m: "map_of pre ''OutSum'' = Some out_sum" "map_of pre ''InvId'' = Some inv_id"
      "map_of pre ''SignatureValue'' = Some ?sig"
    using build_payment_params_shape [OF assms] unfolding shpm_def by blast
  have get: "multi_get (pre @ shpm) ''OutSum'' '''' = out_sum"
    "multi_get (pre @ shpm) ''InvId'' '''' = inv_id"
    "multi_get (pre @ shpm) ''SignatureValue'' '''' = ?sig"
    using m by (simp_all add: multi_get_def map_add_Some_iff)
  have keys_shpm: "map fst shpm = map (\<lambda>k. ''Shp_'' @ k) (map fst (or_empty shp))"
    unfolding shpm_def by (induction "or_empty shp") auto
  have "distinct (map fst shpm)"
    unfolding keys_shpm using assms by (simp add: distinct_map inj_on_def)
  moreover have "set (map fst pre) \<inter> set (map fst shpm) = {}"
    unfolding keys_shpm using nshp by (auto simp: startswith_def)
  ultimately have "distinct (map fst (pre @ shpm))"
    unfolding map_append distinct_append using d by blast
  then have items: "multi_items (pre @ shpm) = pre @ shpm" by (rule multi_items_distinct)
  have "shp_params (pre @ shpm)
      = foldl (\<lambda>d (k, v). if startswith k ''Shp_'' then dict_set d (drop 4 k) v else d) [] shpm"
    by (simp add: shp_params_def shp_params_foldl_other [OF nshp])
  also have "\<dots> = or_empty shp"
    unfolding shpm_def using shp_params_foldl_shp [of "[]" "or_empty shp"] assms by simp
  finally have shp: "shp_params (multi_items (pre @ shpm)) = or_empty shp"
    by (simp add: items)
  have sig: "upper ?sig = md5_upper (canonical_string [?m, out_sum, inv_id] ?p (or_empty shp))"
    by (simp add: build_signature_canonical upper_md5_upper)
  show ?thesis
    unfolding params by (rule payment_success_accept [OF get shp sig])
qed

theorem build_payment_url_round_trip_witness:
  "payment_success
     \<lparr>ROBOKASSA_MERCHANT_LOGIN = ''robo-demo'', ROBOKASSA_PASSWORD1 = ''password1'',
      ROBOKASSA_PASSWORD2 = ''password2'', ROBOKASSA_TEST_MODE = True\<rparr>
     \<lparr>args = build_payment_params ''robo-demo'' ''password1'' ''99.90'' ''1001'' None
               (Some [(''user'', ''42'')]) True None,
      form = []\<rparr> []
   = (SuccessPage ''1001'' (Unknown ''1001'' ''99.90''), [])"
  using build_payment_url_round_trip
    [of "Some [(''user'', ''42'')]"
        "\<lparr>ROBOKASSA_MERCHANT_LOGIN = ''robo-demo'', ROBOKASSA_PASSWORD1 = ''password1'',
          ROBOKASSA_PASSWORD2 = ''password2'', ROBOKASSA_TEST_MODE = True\<rparr>"
        "''99.90''" "''1001''" None True "[]" "[]"]
  by (simp add: or_empty_def get_order_data_def)

section \<open>The order store under the handlers\<close>

lemma map_of_update_order_status_other:
  "k \<noteq> order_id \<Longrightarrow> map_of (update_order_status order_id st rd S) k = map_of S k"
  by (simp add: update_order_status_def Let_def map_of_dict_set split: option.split)

lemma map_of_update_order_status_same:
  "\<exists>o'. map_of (update_order_status order_id st rd S) order_id = Some o' \<and> o_status o' = st"
  by (simp add: update_order_status_def Let_def map_of_dict_set split: option.split)

lemma payment_success_snd: "snd (payment_success cfg req S) = S"
  by (simp add: payment_success_def Let_def split: option.split)

lemma payment_result_invalid: "\<not> callback_valid cfg req \<Longrightarrow> snd (payment_result cfg req S) = S"
  by (auto simp: callback_valid_def payment_result_def Let_def split: option.splits)

lemma payment_result_valid:
  assumes "callback_valid cfg req"
  shows "payment_result cfg req S =
           (Text (''OK'' @ multi_get (form req) ''InvId'' '''') 200,
            update_order_status (multi_get (form req) ''InvId'' '''') ''paid''
              (Some \<lparr>rk_OutSum = multi_get (form req) ''OutSum'' '''',
                      rk_shp = shp_params (multi_items (form req))\<rparr>) S)"
  using assms
  by (auto simp: callback_valid_def payment_result_def multi_get_def Let_def split: option.splits)

lemma create_order_paid:
  assumes "map_of (snd (create_order req S)) k = Some o'" and "o_status o' = ''paid''"
  shows "map_of S k = Some o'"
  using assms
  by (auto simp: create_order_def Let_def map_of_dict_set split: option.splits if_splits)

lemma create_payment_store:
  "snd (create_payment cfg req S) = S
   \<or> (\<exists>order_id. map_of (form req) ''order_id'' = Some order_id
         \<and> snd (create_payment cfg req S) = update_order_status order_id ''pending'' None S)"
  by (auto simp: create_payment_def Let_def split: option.splits exn.splits)

lemma create_payment_paid:
  assumes "map_of (snd (create_payment cfg req S)) k = Some o'" and "o_status o' = ''paid''"
  shows "map_of S k = Some o'"
  using create_payment_store [of cfg req S]
proof
  assume "snd (create_payment cfg req S) = S"
  with assms show ?thesis by simp
next
  assume "\<exists>order_id. map_of (form req) ''order_id'' = Some order_id
         \<and> snd (create_payment cfg req S) = update_order_status order_id ''pending'' None S"
  then obtain order_id
    where eq: "snd (create_payment cfg req S) = update_order_status order_id ''pending'' None S"
    by blast
  show ?thesis
  proof (cases "k = order_id")
    case True
    obtain o'' where "map_of (update_order_status order_id ''pending'' None S) order_id = Some o''"
      and "o_status o'' = ''pending''"
      using map_of_update_order_status_same by blast
    with assms eq True show ?thesis by simp
  next
    case False
    with assms eq show ?thesis by (simp add: map_of_update_order_status_other)
  qed
qed

lemmas decimal_eval = Decimal_of_str_def codepoints_def utf8_tail_def utf8_cp_def strip_cps_def
  is_space_def unicode_whitespace_def is_digit_def nat_of_digits_def finite_decimal_def
  parse_exponent_def ascii_upper_def asc_def str_nat.simps strip_def str_of_def utf8_bytes_def
  char_of_eq_iff Let_def

text \<open>
  Claim C1. Only the callback handler sets an order to \<open>paid\<close>, and only after the
  signature has been verified. Take any step of the system other than a callback that
  passed verification: \<open>index\<close>, \<open>create_order\<close>, \<open>create_payment\<close>,
  \<open>payment_success\<close>, \<open>payment_fail\<close>, or \<open>payment_result\<close> on a request whose
  invoice id is missing or for which \<open>verify_signature_from_result\<close> returns false.
  Every order that is \<open>paid\<close> after the step was in the store before it, with the
  same record.
\<close>

theorem paid_only_by_verified_callback:
  assumes "S' = snd (index S) \<or> S' = snd (create_order req S) \<or> S' = snd (create_payment cfg req S)
           \<or> S' = snd (payment_success cfg req S) \<or> S' = snd (payment_fail req S)
           \<or> (S' = snd (payment_result cfg req S) \<and> \<not> callback_valid cfg req)"
    and "map_of S' k = Some o'" and "o_status o' = ''paid''"
  shows "map_of S k = Some o'"
  using assms
  by (auto simp: index_def payment_fail_def payment_success_snd payment_result_invalid
        dest: create_order_paid create_payment_paid)

theorem paid_only_by_verified_callback_witness:
  "map_of (snd (create_order \<lparr>args = [], form = [(''order_id'', ''7''), (''amount'', ''5'')]\<rparr>
                  [(''1001'', paid_order)])) ''1001'' = Some paid_order
   \<and> o_status paid_order = ''paid''
   \<and> map_of [(''1001'', paid_order)] ''1001'' = Some paid_order"
proof -
  let ?req = "\<lparr>args = [], form = [(''order_id'', ''7''), (''amount'', ''5'')]\<rparr>"
  let ?S = "[(''1001'', paid_order)]"
  have after: "map_of (snd (create_order ?req ?S)) ''1001'' = Some paid_order"
    by (simp add: create_order_def multi_get_def dict_set_def decimal_eval)
  have paid: "o_status paid_order = ''paid''" by (simp add: paid_order_def)
  have "map_of ?S ''1001'' = Some paid_order"
    using paid_only_by_verified_callback [of "snd (create_order ?req ?S)" ?S ?req Config
        "''1001''" paid_order] after paid
    by blast
  with after paid show ?thesis by blast
qed

section \<open>Repeated deliveries of a callback\<close>

lemma update_order_status_present:
  assumes "map_of S k = Some ord"
  shows "update_order_status k st (Some rd) S
           = dict_set S k (ord\<lparr>o_status := st, o_robokassa := Some rd\<rparr>)"
  using assms by (simp add: update_order_status_def Let_def)

lemma update_order_status_twice:
  assumes "map_of S k \<noteq> None"
  shows "update_order_status k st (Some rd) (update_order_status k st (Some rd) S)
           = update_order_status k st (Some rd) S"
proof -
  obtain ord where ord: "map_of S k = Some ord" using assms by blast
  let ?o = "ord\<lparr>o_status := st, o_robokassa := Some rd\<rparr>"
  have one: "update_order_status k st (Some rd) S = dict_set S k ?o"
    using ord by (rule update_order_status_present)
  have "map_of (dict_set S k ?o) k = Some ?o" by (simp add: map_of_dict_set)
  then have "update_order_status k st (Some rd) (dict_set S k ?o)
      = dict_set (dict_set S k ?o) k (?o\<lparr>o_status := st, o_robokassa := Some rd\<rparr>)"
    by (rule update_order_status_present)
  also have "\<dots> = dict_set S k ?o" by (simp add: dict_set_def)
  finally show ?thesis by (simp add: one)
qed

text \<open>
  For an order that is in the store, a second delivery of a verified callback changes
  nothing: the store after two deliveries is the store after one, and the answer is the
  same. After any number of deliveries the order is \<open>paid\<close>.
\<close>

lemma callback_known_order_idempotent:
  assumes "callback_valid cfg req" and "map_of S (multi_get (form req) ''InvId'' '''') \<noteq> None"
  shows "payment_result cfg req (snd (payment_result cfg req S)) = payment_result cfg req S"
  using assms(2) by (simp add: payment_result_valid [OF assms(1)] update_order_status_twice)

lemma callback_marks_paid:
  assumes "callback_valid cfg req"
  shows "map_option o_status
           (map_of (snd (payment_result cfg req S)) (multi_get (form req) ''InvId'' ''''))
         = Some ''paid''"
  using map_of_update_order_status_same
    [of "multi_get (form req) ''InvId'' ''''" "''paid''"
        "Some \<lparr>rk_OutSum = multi_get (form req) ''OutSum'' '''',
               rk_shp = shp_params (multi_items (form req))\<rparr>" S]
  by (auto simp: payment_result_valid [OF assms])

lemma eq_char_of_iff: "c = char_of n \<longleftrightarrow> take_bit 8 n = of_char c"
  using char_of_eq_iff [of n c] by auto

lemma upper_ascii_eval:
  "\<forall>c\<in>set s. (of_char c :: nat) < 128 \<Longrightarrow> upper s = map (\<lambda>c. char_of (ascii_upper (of_char c))) s"
  by (rule upper_ascii)

lemma callback_valid_example:
  "callback_valid Config
     \<lparr>args = [], form = [(''OutSum'', ''99.90''), (''InvId'', ''1001''),
                         (''SignatureValue'', ''D9B3B7C056EB12CA8EED99D439FE3BF8'')]\<rparr>"
  by (simp add: callback_valid_def Config_def multi_get_def multi_items_def shp_params_def
        startswith_def verify_signature_from_result_def or_empty_def format_shp_part_def Let_def
        md5_result_plain upper_ascii_eval ascii_upper_def char_of_eq_iff eq_char_of_iff)

text \<open>
  Claim C8. Handling the same verified callback twice should leave the store as
  handling it once does. For an invoice id that is not in the store it does not: the
  first delivery creates a record without the gateway data and returns, and the second
  delivery, finding the record, attaches the data. With the default configuration, the
  empty store and the callback for amount \<open>99.90\<close> and invoice \<open>1001\<close> carrying its
  correct signature, the stores after one and after two deliveries differ.
\<close>

theorem callback_twice_unknown_order:
  "snd (payment_result Config
          \<lparr>args = [], form = [(''OutSum'', ''99.90''), (''InvId'', ''1001''),
                              (''SignatureValue'', ''D9B3B7C056EB12CA8EED99D439FE3BF8'')]\<rparr> [])
     = [(''1001'', \<lparr>o_id = ''1001'', o_amount = None, o_description = None, o_status = ''paid'',
                     o_shp = None, o_robokassa = None\<rparr>)]
   \<and> snd (payment_result Config
          \<lparr>args = [], form = [(''OutSum'', ''99.90''), (''InvId'', ''1001''),
                              (''SignatureValue'', ''D9B3B7C056EB12CA8EED99D439FE3BF8'')]\<rparr>
          (snd (payment_result Config
             \<lparr>args = [], form = [(''OutSum'', ''99.90''), (''InvId'', ''1001''),
                                 (''SignatureValue'', ''D9B3B7C056EB12CA8EED99D439FE3BF8'')]\<rparr> [])))
     = [(''1001'', \<lparr>o_id = ''1001'', o_amount = None, o_description = None, o_status = ''paid'',
                     o_shp = None,
                     o_robokassa = Some \<lparr>rk_OutSum = ''99.90'', rk_shp = []\<rparr>\<rparr>)]"
  by (simp add: payment_result_valid [OF callback_valid_example] update_order_status_def
        dict_set_def multi_get_def multi_items_def shp_params_def startswith_def Let_def)

section \<open>Which handlers move the status of an order\<close>









section \<open>Where the order parameters are checked\<close>






end
